theory Spec2Isabelle
  imports Main
begin

section \<open>Data model of \<^verbatim>\<open>src/main/mainWindow.ts\<close>\<close>

text \<open>
  The module wires one Electron \<^verbatim>\<open>BrowserWindow\<close> to two settings stores.
  Pixel coordinates and sizes are integers (\<^typ>\<open>int\<close>); an optional
  property of a JavaScript object is an \<^typ>\<open>'a option\<close>, \<open>None\<close> standing for
  \<^verbatim>\<open>undefined\<close>.
\<close>

subsection \<open>Imported constants\<close>

text \<open>
  \<^verbatim>\<open>ICON_PATH\<close> (from \<^verbatim>\<open>../shared/paths\<close>) and the four size
  constants (from \<^verbatim>\<open>./constants\<close>) are imported by the module; their values are
  parameters of the model.
\<close>

record constants =
  ICON_PATH :: string
  DEFAULT_WIDTH :: int
  DEFAULT_HEIGHT :: int
  MIN_WIDTH :: int
  MIN_HEIGHT :: int

subsection \<open>Settings\<close>

text \<open>Electron's \<^verbatim>\<open>Rectangle\<close>, as returned by \<^verbatim>\<open>win.getBounds()\<close>.\<close>

record rectangle =
  rect_x :: int
  rect_y :: int
  rect_width :: int
  rect_height :: int

text \<open>
  The persisted \<^verbatim>\<open>windowBounds\<close> record. Each of its four properties may be
  missing in the settings file.
\<close>

record saved_bounds =
  sb_x :: "int option"
  sb_y :: "int option"
  sb_width :: "int option"
  sb_height :: "int option"

text \<open>The keys of \<^verbatim>\<open>Settings.store\<close> that the module reads or writes.\<close>

record settings =
  windowBounds :: "saved_bounds option"
  disableMinSize :: "bool option"
  staticTitle :: "bool option"
  tray :: "bool option"
  minimizeToTray :: "bool option"
  discordBranch :: "string option"
  maximized :: "bool option"
  minimized :: "bool option"

text \<open>The keys of \<^verbatim>\<open>VencordSettings.store\<close> that the module reads.\<close>

record vencord_settings =
  winCtrlQ :: "bool option"
  frameless :: "bool option"
  macosTranslucency :: "bool option"

text \<open>JavaScript truthiness of an optional boolean: \<^verbatim>\<open>undefined\<close> is falsy.\<close>

fun truthy :: "bool option \<Rightarrow> bool" where
  "truthy None = False"
| "truthy (Some b) = b"

subsection \<open>Window bounds options\<close>

text \<open>
  The part of \<^verbatim>\<open>BrowserWindowConstructorOptions\<close> that
  \<^verbatim>\<open>getWindowBoundsOptions\<close> fills in.
\<close>

record bounds_options =
  opt_width :: int
  opt_height :: int
  opt_x :: "int option"
  opt_y :: "int option"
  opt_minWidth :: "int option"
  opt_minHeight :: "int option"

text \<open>
  \<^verbatim>\<open>const { x, y, width, height } = Settings.store.windowBounds ?? {};\<close>
  An absent record destructures to four \<^verbatim>\<open>undefined\<close>s.
\<close>

definition destructure_bounds :: "saved_bounds option \<Rightarrow> saved_bounds" where
  "destructure_bounds wb =
     (case wb of
        None \<Rightarrow> \<lparr>sb_x = None, sb_y = None, sb_width = None, sb_height = None\<rparr>
      | Some b \<Rightarrow> b)"

text \<open>The \<^verbatim>\<open>??\<close> operator.\<close>

fun nullish :: "'a option \<Rightarrow> 'a \<Rightarrow> 'a" where
  "nullish None d = d"
| "nullish (Some v) d = v"

definition getWindowBoundsOptions :: "constants \<Rightarrow> settings \<Rightarrow> bounds_options" where
  "getWindowBoundsOptions c st =
     (let b = destructure_bounds (windowBounds st);
          options = \<lparr>opt_width = nullish (sb_width b) (DEFAULT_WIDTH c),
                     opt_height = nullish (sb_height b) (DEFAULT_HEIGHT c),
                     opt_x = None, opt_y = None,
                     opt_minWidth = None, opt_minHeight = None\<rparr>;
          options = (if sb_x b \<noteq> None \<and> sb_y b \<noteq> None
                     then options\<lparr>opt_x := sb_x b, opt_y := sb_y b\<rparr>
                     else options);
          options = (if \<not> truthy (disableMinSize st)
                     then options\<lparr>opt_minWidth := Some (MIN_WIDTH c),
                                  opt_minHeight := Some (MIN_HEIGHT c)\<rparr>
                     else options)
      in options)"

subsection \<open>Menus\<close>

text \<open>
  The \<^verbatim>\<open>click\<close> closures of the two menu templates, named by what they do.
\<close>

datatype action =
    ActShow             \<comment> \<open>\<^verbatim>\<open>win.show()\<close>\<close>
  | ActAbout            \<comment> \<open>\<^verbatim>\<open>createAboutWindow\<close>\<close>
  | ActUpdate           \<comment> \<open>\<^verbatim>\<open>await downloadVencordFiles()\<close>, then \<^verbatim>\<open>app.relaunch(); app.quit()\<close>\<close>
  | ActRelaunch         \<comment> \<open>\<^verbatim>\<open>app.relaunch(); app.quit()\<close>\<close>
  | ActTrayQuit         \<comment> \<open>\<^verbatim>\<open>isQuitting = true; app.quit()\<close>\<close>
  | ActQuit             \<comment> \<open>\<^verbatim>\<open>app.quit()\<close>\<close>
  | ActQuickSwitcher    \<comment> \<open>\<^verbatim>\<open>win.webContents.executeJavaScript(...)\<close>\<close>

record menu_item =
  label :: "string option"
  role :: "string option"
  item_type :: "string option"
  accelerator :: "string option"
  visible :: bool
  enabled :: bool
  toolTip :: "string option"
  click :: "action option"

text \<open>
  A template entry that gives no property. \<^verbatim>\<open>Menu.buildFromTemplate\<close>
  makes an item visible and enabled unless the template says otherwise.
\<close>

definition item :: menu_item where
  "item = \<lparr>label = None, role = None, item_type = None, accelerator = None,
            visible = True, enabled = True, toolTip = None, click = None\<rparr>"

text \<open>The top level of the application menu: one custom submenu and four role menus.\<close>

datatype top_item =
    Submenu string string "menu_item list"   \<comment> \<open>label, role, submenu\<close>
  | RoleMenu string

subsection \<open>Tray objects\<close>

text \<open>
  Every \<^verbatim>\<open>new Tray(ICON_PATH)\<close> allocates an object. The objects live in a
  store (a list, in order of allocation); the module variable \<^verbatim>\<open>tray\<close> holds the
  index of one of them, or nothing. The context menu built by the same call of
  \<^verbatim>\<open>initTray\<close> is kept with its tray; the window listeners registered by that
  call refer to it by the same index.
\<close>

record tray_obj =
  tray_icon :: string
  tray_toolTip :: "string option"
  tray_menu :: "menu_item list"
  tray_click :: "action list"
  tray_destroyed :: bool

subsection \<open>The window\<close>

text \<open>Listeners that the module registers on window events that cannot be cancelled.\<close>

datatype handler =
    TrayShow nat    \<comment> \<open>\<^verbatim>\<open>trayMenu.items[0].enabled = false\<close>, for the menu of that tray\<close>
  | TrayHide nat    \<comment> \<open>\<^verbatim>\<open>trayMenu.items[0].enabled = true\<close>\<close>
  | SaveState
  | SaveBounds

text \<open>Listeners on events that carry \<^verbatim>\<open>preventDefault\<close>.\<close>

datatype cancellable =
    ClosePolicy     \<comment> \<open>the \<^verbatim>\<open>close\<close> listener of \<^verbatim>\<open>createMainWindow\<close>\<close>
  | KeepTitle       \<comment> \<open>\<^verbatim>\<open>e => e.preventDefault()\<close> on \<^verbatim>\<open>page-title-updated\<close>\<close>

record window =
  w_visible :: bool
  w_closed :: bool
  w_bounds :: rectangle
  w_minWidth :: int
  w_minHeight :: int
  w_maximized :: bool
  w_minimized :: bool
  w_frame :: bool
  w_autoHideMenuBar :: bool
  w_icon :: string
  w_title :: "string option"
  w_vibrancy :: "string option"
  w_backgroundColor :: "string option"
  w_userAgent :: "string option"
  w_url :: "string option"
  w_listeners :: "(string \<times> handler) list"
  w_cancellable :: "(string \<times> cancellable) list"

text \<open>
  The options object passed to \<^verbatim>\<open>new BrowserWindow\<close>. The constant
  \<^verbatim>\<open>webPreferences\<close> block is left out: nothing in the module reads it back.
\<close>

record window_options =
  o_show :: bool
  o_autoHideMenuBar :: bool
  o_icon :: string
  o_frame :: bool
  o_title :: "string option"
  o_vibrancy :: "string option"
  o_backgroundColor :: "string option"
  o_bounds :: bounds_options

subsection \<open>Process state\<close>

text \<open>Assignments to \<^verbatim>\<open>Settings.store\<close> made by the module, in order.\<close>

datatype setting_write =
    WriteMaximized bool
  | WriteMinimized bool
  | WriteWindowBounds rectangle

text \<open>
  Calls that leave the module: the app object and the imported helpers
  \<^verbatim>\<open>createAboutWindow\<close>, \<^verbatim>\<open>makeLinksOpenExternally\<close> and
  \<^verbatim>\<open>downloadVencordFiles\<close>. The helpers are not part of the module; a call is
  recorded and nothing more.
\<close>

datatype external_call =
    App_relaunch
  | App_quit
  | CreateAboutWindow
  | DownloadVencordFiles
  | MakeLinksOpenExternally
  | ExecuteJavaScript string

text \<open>Change listeners registered on the two settings stores.\<close>

datatype store_handler = OnTray | OnDisableMinSize | OnMacosTranslucency

text \<open>
  \<^const>\<open>ActUpdate\<close> is an \<^verbatim>\<open>async\<close> function: it calls
  \<^verbatim>\<open>downloadVencordFiles()\<close> and returns to the event loop at the
  \<^verbatim>\<open>await\<close>. \<open>pending_downloads\<close> counts the calls that wait there.
\<close>

record app_state =
  isQuitting :: bool
  tray_var :: "nat option"
  trays :: "tray_obj list"
  mainWin :: window
  store :: settings
  vstore :: vencord_settings
  writes :: "setting_write list"
  store_listeners :: "(string \<times> store_handler) list"
  vstore_listeners :: "(string \<times> store_handler) list"
  applicationMenu :: "top_item list option"
  calls :: "external_call list"
  pending_downloads :: nat

text \<open>What the process hands to \<^verbatim>\<open>createMainWindow\<close>.\<close>

record env =
  env_consts :: constants
  env_platform :: string
  env_store :: settings
  env_vstore :: vencord_settings
  env_placement :: "int \<times> int"

section \<open>The toolkit and the settings store\<close>

text \<open>
  Electron's window, tray and menu objects and the settings store are outside the
  module. They are modelled by what the module uses of them; every toolkit operation
  succeeds.
\<close>

subsection \<open>Window primitives\<close>

text \<open>
  \<^verbatim>\<open>new BrowserWindow(options)\<close>. Where the options give no position the
  toolkit places the window itself; \<open>placement\<close> is that position. A window built
  without minimum size has the toolkit's minimum 0.
\<close>

definition new_BrowserWindow :: "window_options \<Rightarrow> int \<times> int \<Rightarrow> window" where
  "new_BrowserWindow opts placement =
     \<lparr>w_visible = o_show opts,
      w_closed = False,
      w_bounds = \<lparr>rect_x = nullish (opt_x (o_bounds opts)) (fst placement),
                  rect_y = nullish (opt_y (o_bounds opts)) (snd placement),
                  rect_width = opt_width (o_bounds opts),
                  rect_height = opt_height (o_bounds opts)\<rparr>,
      w_minWidth = nullish (opt_minWidth (o_bounds opts)) 0,
      w_minHeight = nullish (opt_minHeight (o_bounds opts)) 0,
      w_maximized = False,
      w_minimized = False,
      w_frame = o_frame opts,
      w_autoHideMenuBar = o_autoHideMenuBar opts,
      w_icon = o_icon opts,
      w_title = o_title opts,
      w_vibrancy = o_vibrancy opts,
      w_backgroundColor = o_backgroundColor opts,
      w_userAgent = None,
      w_url = None,
      w_listeners = [],
      w_cancellable = []\<rparr>"

text \<open>\<^verbatim>\<open>win.on(name, listener)\<close>: listeners are kept in order of registration.\<close>

definition win_on :: "string \<Rightarrow> handler \<Rightarrow> app_state \<Rightarrow> app_state" where
  "win_on name h s =
     s\<lparr>mainWin := (mainWin s)\<lparr>w_listeners := w_listeners (mainWin s) @ [(name, h)]\<rparr>\<rparr>"

definition win_on_cancellable :: "string \<Rightarrow> cancellable \<Rightarrow> app_state \<Rightarrow> app_state" where
  "win_on_cancellable name h s =
     s\<lparr>mainWin := (mainWin s)\<lparr>w_cancellable := w_cancellable (mainWin s) @ [(name, h)]\<rparr>\<rparr>"

text \<open>
  \<^verbatim>\<open>trayMenu.items[0].enabled = v\<close> on the menu of tray \<open>i\<close>. Every menu built
  by \<^verbatim>\<open>initTray\<close> has six items and every index held by a listener is
  allocated, so the updates are in range.
\<close>

definition set_open_enabled :: "nat \<Rightarrow> bool \<Rightarrow> tray_obj list \<Rightarrow> tray_obj list" where
  "set_open_enabled i v ts =
     ts[i := (ts ! i)\<lparr>tray_menu := (tray_menu (ts ! i))[0 := (tray_menu (ts ! i) ! 0)\<lparr>enabled := v\<rparr>]\<rparr>]"

text \<open>
  \<^verbatim>\<open>saveState\<close> and \<^verbatim>\<open>saveBounds\<close> of \<^verbatim>\<open>initWindowBoundsListeners\<close>.
  Each assignment to the store is recorded in \<^const>\<open>writes\<close>. The module registers
  no change listener on the three keys written here.
\<close>

definition saveState :: "app_state \<Rightarrow> app_state" where
  "saveState s =
     (let s = s\<lparr>store := (store s)\<lparr>maximized := Some (w_maximized (mainWin s))\<rparr>,
                 writes := writes s @ [WriteMaximized (w_maximized (mainWin s))]\<rparr>;
          s = s\<lparr>store := (store s)\<lparr>minimized := Some (w_minimized (mainWin s))\<rparr>,
                 writes := writes s @ [WriteMinimized (w_minimized (mainWin s))]\<rparr>
      in s)"

definition full_bounds :: "rectangle \<Rightarrow> saved_bounds" where
  "full_bounds r = \<lparr>sb_x = Some (rect_x r), sb_y = Some (rect_y r),
                    sb_width = Some (rect_width r), sb_height = Some (rect_height r)\<rparr>"

definition saveBounds :: "app_state \<Rightarrow> app_state" where
  "saveBounds s =
     s\<lparr>store := (store s)\<lparr>windowBounds := Some (full_bounds (w_bounds (mainWin s)))\<rparr>,
       writes := writes s @ [WriteWindowBounds (w_bounds (mainWin s))]\<rparr>"

fun run_handler :: "handler \<Rightarrow> app_state \<Rightarrow> app_state" where
  "run_handler (TrayShow i) s = s\<lparr>trays := set_open_enabled i False (trays s)\<rparr>"
| "run_handler (TrayHide i) s = s\<lparr>trays := set_open_enabled i True (trays s)\<rparr>"
| "run_handler SaveState s = saveState s"
| "run_handler SaveBounds s = saveBounds s"

text \<open>The toolkit emits an event: the listeners registered under its name run in order.\<close>

definition listeners_for :: "string \<Rightarrow> (string \<times> 'h) list \<Rightarrow> 'h list" where
  "listeners_for name ls = map snd (filter (\<lambda>p. fst p = name) ls)"

definition emit :: "string \<Rightarrow> app_state \<Rightarrow> app_state" where
  "emit name s = fold run_handler (listeners_for name (w_listeners (mainWin s))) s"

text \<open>
  \<^verbatim>\<open>win.show()\<close> and \<^verbatim>\<open>win.hide()\<close>: the window becomes visible
  (hidden) and the toolkit emits \<^verbatim>\<open>show\<close> (\<^verbatim>\<open>hide\<close>).
\<close>

definition win_show :: "app_state \<Rightarrow> app_state" where
  "win_show s = emit ''show'' (s\<lparr>mainWin := (mainWin s)\<lparr>w_visible := True\<rparr>\<rparr>)"

definition win_hide :: "app_state \<Rightarrow> app_state" where
  "win_hide s = emit ''hide'' (s\<lparr>mainWin := (mainWin s)\<lparr>w_visible := False\<rparr>\<rparr>)"

text \<open>\<^verbatim>\<open>win.setMinimumSize(w, h)\<close>.\<close>

definition setMinimumSize :: "int \<Rightarrow> int \<Rightarrow> app_state \<Rightarrow> app_state" where
  "setMinimumSize mw mh s = s\<lparr>mainWin := (mainWin s)\<lparr>w_minWidth := mw, w_minHeight := mh\<rparr>\<rparr>"

text \<open>
  \<^verbatim>\<open>win.setBounds({ width, height })\<close>: the properties that are not given
  keep their value.
\<close>

definition setBounds_size :: "int \<Rightarrow> int \<Rightarrow> app_state \<Rightarrow> app_state" where
  "setBounds_size w h s =
     s\<lparr>mainWin := (mainWin s)\<lparr>w_bounds := (w_bounds (mainWin s))\<lparr>rect_width := w, rect_height := h\<rparr>\<rparr>\<rparr>"

definition setVibrancy :: "string option \<Rightarrow> app_state \<Rightarrow> app_state" where
  "setVibrancy v s = s\<lparr>mainWin := (mainWin s)\<lparr>w_vibrancy := v\<rparr>\<rparr>"

definition setBackgroundColor :: "string \<Rightarrow> app_state \<Rightarrow> app_state" where
  "setBackgroundColor col s = s\<lparr>mainWin := (mainWin s)\<lparr>w_backgroundColor := Some col\<rparr>\<rparr>"

definition call :: "external_call \<Rightarrow> app_state \<Rightarrow> app_state" where
  "call x s = s\<lparr>calls := calls s @ [x]\<rparr>"

section \<open>The module\<close>

subsection \<open>\<^verbatim>\<open>initTray\<close>\<close>

definition trayMenu :: "menu_item list" where
  "trayMenu =
     [item\<lparr>label := Some ''Open'', click := Some ActShow, enabled := False\<rparr>,
      item\<lparr>label := Some ''About'', click := Some ActAbout\<rparr>,
      item\<lparr>label := Some ''Update Vencord'', click := Some ActUpdate\<rparr>,
      item\<lparr>item_type := Some ''separator''\<rparr>,
      item\<lparr>label := Some ''Relaunch'', click := Some ActRelaunch\<rparr>,
      item\<lparr>label := Some ''Quit Vencord Desktop'', click := Some ActTrayQuit\<rparr>]"

text \<open>
  The new tray is allocated at the end of the store and assigned to the module
  variable \<^verbatim>\<open>tray\<close>, whatever that held before; then the two window listeners
  are registered.
\<close>

definition initTray :: "constants \<Rightarrow> app_state \<Rightarrow> app_state" where
  "initTray c s =
     (let i = length (trays s);
          t = \<lparr>tray_icon = ICON_PATH c,
               tray_toolTip = Some ''Vencord Desktop'',
               tray_menu = trayMenu,
               tray_click = [ActShow],
               tray_destroyed = False\<rparr>;
          s = s\<lparr>trays := trays s @ [t], tray_var := Some i\<rparr>;
          s = win_on ''show'' (TrayShow i) s;
          s = win_on ''hide'' (TrayHide i) s
      in s)"

text \<open>\<^verbatim>\<open>tray?.destroy()\<close>: nothing when the variable is unset.\<close>

definition tray_destroy :: "app_state \<Rightarrow> app_state" where
  "tray_destroy s =
     (case tray_var s of
        None \<Rightarrow> s
      | Some i \<Rightarrow> s\<lparr>trays := (trays s)[i := (trays s ! i)\<lparr>tray_destroyed := True\<rparr>]\<rparr>)"

subsection \<open>\<^verbatim>\<open>initMenuBar\<close>\<close>

definition appMenu_items :: "string \<Rightarrow> vencord_settings \<Rightarrow> menu_item list" where
  "appMenu_items platform vs =
     (let isWindows = (platform = ''win32'');
          wantCtrlQ = (\<not> isWindows \<or> truthy (winCtrlQ vs))
      in [item\<lparr>label := Some ''About Vencord Desktop'', click := Some ActAbout\<rparr>,
          item\<lparr>label := Some ''Force Update Vencord'', click := Some ActUpdate,
               toolTip := Some ''Vencord Desktop will automatically restart after this operation''\<rparr>,
          item\<lparr>label := Some ''Relaunch'', accelerator := Some ''CmdOrCtrl+Shift+R'',
               click := Some ActRelaunch\<rparr>,
          item\<lparr>label := Some ''Quit'',
               accelerator := (if wantCtrlQ then Some ''CmdOrCtrl+Q'' else None),
               visible := \<not> isWindows, role := Some ''quit'', click := Some ActQuit\<rparr>,
          item\<lparr>label := Some ''Quit'',
               accelerator := (if isWindows then Some ''Alt+F4'' else None),
               visible := isWindows, role := Some ''quit'', click := Some ActQuit\<rparr>,
          item\<lparr>label := Some ''Zoom in (hidden, hack for Qwertz and others)'',
               accelerator := Some ''CmdOrCtrl+='', role := Some ''zoomIn'', visible := False\<rparr>,
          item\<lparr>label := Some ''Quit'', accelerator := Some ''CmdOrCtrl+Q'',
               click := Some ActQuit, visible := False\<rparr>,
          item\<lparr>label := Some ''Quick Switcher'', accelerator := Some ''CmdOrCtrl+T'',
               click := Some ActQuickSwitcher\<rparr>])"

definition initMenuBar :: "string \<Rightarrow> app_state \<Rightarrow> app_state" where
  "initMenuBar platform s =
     s\<lparr>applicationMenu :=
         Some [Submenu ''Vencord Desktop'' ''appMenu'' (appMenu_items platform (vstore s)),
               RoleMenu ''fileMenu'', RoleMenu ''editMenu'',
               RoleMenu ''viewMenu'', RoleMenu ''windowMenu'']\<rparr>"

subsection \<open>\<^verbatim>\<open>initWindowBoundsListeners\<close>\<close>

definition initWindowBoundsListeners :: "app_state \<Rightarrow> app_state" where
  "initWindowBoundsListeners s =
     (let s = win_on ''maximize'' SaveState s;
          s = win_on ''minimize'' SaveState s;
          s = win_on ''unmaximize'' SaveState s;
          s = win_on ''resize'' SaveBounds s;
          s = win_on ''move'' SaveBounds s
      in s)"

subsection \<open>\<^verbatim>\<open>initSettingsListeners\<close>\<close>

text \<open>The three change listeners, each called with the new value of its key.\<close>

fun run_store_handler :: "constants \<Rightarrow> store_handler \<Rightarrow> bool \<Rightarrow> app_state \<Rightarrow> app_state" where
  "run_store_handler c OnTray enable s =
     (if enable then initTray c s else tray_destroy s)"
| "run_store_handler c OnDisableMinSize disable s =
     (if disable then setMinimumSize 1 1 s
      else (let s = setMinimumSize (MIN_WIDTH c) (MIN_HEIGHT c) s;
                width = rect_width (w_bounds (mainWin s));
                height = rect_height (w_bounds (mainWin s))
            in setBounds_size (max width (MIN_WIDTH c)) (max height (MIN_HEIGHT c)) s))"
| "run_store_handler c OnMacosTranslucency translucent s =
     (if translucent
      then setBackgroundColor ''#ffffff00'' (setVibrancy (Some ''sidebar'') s)
      else setBackgroundColor ''#ffffff'' (setVibrancy None s))"

definition initSettingsListeners :: "app_state \<Rightarrow> app_state" where
  "initSettingsListeners s =
     (let s = s\<lparr>store_listeners := store_listeners s @ [(''tray'', OnTray)]\<rparr>;
          s = s\<lparr>store_listeners := store_listeners s @ [(''disableMinSize'', OnDisableMinSize)]\<rparr>;
          s = s\<lparr>vstore_listeners := vstore_listeners s @ [(''macosTranslucency'', OnMacosTranslucency)]\<rparr>
      in s)"

subsection \<open>\<^verbatim>\<open>createMainWindow\<close>\<close>

text \<open>The \<^verbatim>\<open>close\<close> and \<^verbatim>\<open>page-title-updated\<close> listeners. The first
  component is the event's \<^verbatim>\<open>defaultPrevented\<close>.\<close>

fun run_cancellable :: "cancellable \<Rightarrow> bool \<times> app_state \<Rightarrow> bool \<times> app_state" where
  "run_cancellable ClosePolicy (prevented, s) =
     (if isQuitting s \<or> minimizeToTray (store s) = Some False \<or> tray (store s) = Some False
      then (prevented, s)
      else (True, win_hide s))"
| "run_cancellable KeepTitle (prevented, s) = (True, s)"

definition emit_cancellable :: "string \<Rightarrow> app_state \<Rightarrow> bool \<times> app_state" where
  "emit_cancellable name s =
     fold run_cancellable (listeners_for name (w_cancellable (mainWin s))) (False, s)"

definition userAgent :: string where
  "userAgent = ''Mozilla/5.0 (Windows NT 10.0; Win64; x64) AppleWebKit/537.36 (KHTML, like Gecko) Chrome/111.0.0.0 Safari/537.36''"

definition subdomain :: "settings \<Rightarrow> string" where
  "subdomain st =
     (case discordBranch st of
        None \<Rightarrow> []
      | Some b \<Rightarrow> if b = ''canary'' \<or> b = ''ptb'' then b @ ''.'' else [])"

definition main_url :: "settings \<Rightarrow> string" where
  "main_url st = ''https://'' @ subdomain st @ ''discord.com/app''"

definition main_options :: "env \<Rightarrow> window_options" where
  "main_options e =
     \<lparr>o_show = False,
      o_autoHideMenuBar = True,
      o_icon = ICON_PATH (env_consts e),
      o_frame = (frameless (env_vstore e) \<noteq> Some True),
      o_title = (if truthy (staticTitle (env_store e)) then Some ''Vencord'' else None),
      o_vibrancy = (if truthy (macosTranslucency (env_vstore e)) then Some ''sidebar'' else None),
      o_backgroundColor =
        (if truthy (macosTranslucency (env_vstore e)) then Some ''#ffffff00'' else None),
      o_bounds = getWindowBoundsOptions (env_consts e) (env_store e)\<rparr>"

text \<open>
  The module variables start as \<^verbatim>\<open>isQuitting = false\<close> and \<^verbatim>\<open>tray\<close>
  unset. Only \<^verbatim>\<open>isQuitting\<close> can change before \<^verbatim>\<open>createMainWindow\<close> runs
  (through \<^verbatim>\<open>before-quit\<close>); \<open>quitting\<close> is its value at the call.
\<close>

definition isQuitting_initial :: bool where
  "isQuitting_initial = False"

definition createMainWindow :: "env \<Rightarrow> bool \<Rightarrow> app_state" where
  "createMainWindow e quitting =
     (let s = \<lparr>isQuitting = quitting,
               tray_var = None,
               trays = [],
               mainWin = new_BrowserWindow (main_options e) (env_placement e),
               store = env_store e,
               vstore = env_vstore e,
               writes = [],
               store_listeners = [],
               vstore_listeners = [],
               applicationMenu = None,
               calls = [],
               pending_downloads = 0\<rparr>;
          s = win_on_cancellable ''close'' ClosePolicy s;
          s = (if truthy (staticTitle (store s))
               then win_on_cancellable ''page-title-updated'' KeepTitle s else s);
          s = initWindowBoundsListeners s;
          s = (if nullish (tray (store s)) True then initTray (env_consts e) s else s);
          s = initMenuBar (env_platform e) s;
          s = call MakeLinksOpenExternally s;
          s = initSettingsListeners s;
          s = s\<lparr>mainWin := (mainWin s)\<lparr>w_userAgent := Some userAgent\<rparr>\<rparr>;
          s = s\<lparr>mainWin := (mainWin s)\<lparr>w_url := Some (main_url (store s))\<rparr>\<rparr>
      in s)"

section \<open>Events\<close>

subsection \<open>Menu and tray actions\<close>

definition quick_switcher_script :: string where
  "quick_switcher_script =
     ''Vencord.Webpack.findByCode('' @ [CHR 0x27] @ ''type:'' @ [CHR 0x22]
       @ ''QUICKSWITCHER_SHOW'' @ [CHR 0x22, CHR 0x27] @ '')();''"

text \<open>
  The bodies of the \<^verbatim>\<open>click\<close> closures. The update handler runs up to its
  \<^verbatim>\<open>await\<close>; the rest of it is \<open>download_settled\<close> below.
  \<^verbatim>\<open>app.quit()\<close> and the other
  calls into the app object are recorded, not interpreted: what the toolkit does on
  \<^verbatim>\<open>app.quit()\<close> (announce \<^verbatim>\<open>before-quit\<close>, ask the windows to close)
  arrives as events of its own.
\<close>

fun run_action :: "action \<Rightarrow> app_state \<Rightarrow> app_state" where
  "run_action ActShow s = win_show s"
| "run_action ActAbout s = call CreateAboutWindow s"
| "run_action ActUpdate s =
     (call DownloadVencordFiles s)\<lparr>pending_downloads := Suc (pending_downloads s)\<rparr>"
| "run_action ActRelaunch s = call App_quit (call App_relaunch s)"
| "run_action ActTrayQuit s = call App_quit (s\<lparr>isQuitting := True\<rparr>)"
| "run_action ActQuit s = call App_quit s"
| "run_action ActQuickSwitcher s = call (ExecuteJavaScript quick_switcher_script) s"

text \<open>
  The promise of a waiting update handler settles. When it is fulfilled the handler
  goes on with \<^verbatim>\<open>app.relaunch(); app.quit()\<close>; when it is rejected the handler
  ends there, and neither call is made. Nothing settles while no handler waits.
\<close>

definition download_settled :: "bool \<Rightarrow> app_state \<Rightarrow> app_state" where
  "download_settled fulfilled s =
     (if pending_downloads s = 0 then s
      else (let s = s\<lparr>pending_downloads := pending_downloads s - 1\<rparr>
            in if fulfilled then call App_quit (call App_relaunch s) else s))"

definition click_item :: "menu_item list \<Rightarrow> nat \<Rightarrow> app_state \<Rightarrow> app_state" where
  "click_item items j s =
     (if j < length items \<and> enabled (items ! j)
      then (case click (items ! j) of None \<Rightarrow> s | Some a \<Rightarrow> run_action a s)
      else s)"

subsection \<open>The settings store\<close>

text \<open>
  Modelled from the spec: the implementation of \<^verbatim>\<open>Settings\<close> and
  \<^verbatim>\<open>VencordSettings\<close> (\<^verbatim>\<open>./settings\<close>) is missing. The spec describes the
  store as a mapping from option name to value with ``a change-notification
  mechanism (register a listener per key; listener invoked with the new value whenever
  that key's value changes)''. So an assignment that changes the value of a key stores
  it and calls the listeners of that key, in order, with the new value; an assignment
  of the value the key already has calls nobody.
\<close>

definition notify :: "constants \<Rightarrow> string \<Rightarrow> bool \<Rightarrow> app_state \<Rightarrow> app_state" where
  "notify c key v s =
     fold (\<lambda>h. run_store_handler c h v) (listeners_for key (store_listeners s)) s"

text \<open>
  Modelled from the spec: the same notification, for the listeners of
  \<^verbatim>\<open>VencordSettings\<close>.
\<close>

definition vnotify :: "constants \<Rightarrow> string \<Rightarrow> bool \<Rightarrow> app_state \<Rightarrow> app_state" where
  "vnotify c key v s =
     fold (\<lambda>h. run_store_handler c h v) (listeners_for key (vstore_listeners s)) s"

text \<open>
  Modelled from the spec: an assignment to one key of a store, from anywhere in the
  app. The four keys below are those whose value the module reads after construction.
\<close>

definition change_tray :: "constants \<Rightarrow> bool \<Rightarrow> app_state \<Rightarrow> app_state" where
  "change_tray c v s =
     (if tray (store s) = Some v then s
      else notify c ''tray'' v (s\<lparr>store := (store s)\<lparr>tray := Some v\<rparr>\<rparr>))"

definition change_disableMinSize :: "constants \<Rightarrow> bool \<Rightarrow> app_state \<Rightarrow> app_state" where
  "change_disableMinSize c v s =
     (if disableMinSize (store s) = Some v then s
      else notify c ''disableMinSize'' v (s\<lparr>store := (store s)\<lparr>disableMinSize := Some v\<rparr>\<rparr>))"

definition change_minimizeToTray :: "constants \<Rightarrow> bool \<Rightarrow> app_state \<Rightarrow> app_state" where
  "change_minimizeToTray c v s =
     (if minimizeToTray (store s) = Some v then s
      else notify c ''minimizeToTray'' v (s\<lparr>store := (store s)\<lparr>minimizeToTray := Some v\<rparr>\<rparr>))"

definition change_macosTranslucency :: "constants \<Rightarrow> bool \<Rightarrow> app_state \<Rightarrow> app_state" where
  "change_macosTranslucency c v s =
     (if macosTranslucency (vstore s) = Some v then s
      else vnotify c ''macosTranslucency'' v
             (s\<lparr>vstore := (vstore s)\<lparr>macosTranslucency := Some v\<rparr>\<rparr>))"

subsection \<open>What can happen to the process\<close>

datatype event =
    BeforeQuit                      \<comment> \<open>the app announces \<^verbatim>\<open>before-quit\<close>\<close>
  | CloseRequest                    \<comment> \<open>the window is asked to close\<close>
  | ShowWindow                      \<comment> \<open>the window is shown, by whoever calls \<^verbatim>\<open>show()\<close>\<close>
  | HideWindow                      \<comment> \<open>the window is hidden\<close>
  | MoveWindow int int              \<comment> \<open>the window is moved to \<open>(x, y)\<close>\<close>
  | ResizeWindow int int            \<comment> \<open>the window is resized to \<open>width \<times> height\<close>\<close>
  | MaximizeWindow
  | MinimizeWindow
  | UnmaximizeWindow
  | RestoreWindow
  | PageTitleUpdated string
  | ClickTray nat                   \<comment> \<open>a click on the icon of that tray\<close>
  | ClickTrayMenu nat nat           \<comment> \<open>tray, item of its context menu\<close>
  | ClickAppMenu nat                \<comment> \<open>item of the ``Vencord Desktop'' submenu, by click or accelerator\<close>
  | DownloadSettled bool            \<comment> \<open>an awaited download is fulfilled (\<open>True\<close>) or rejected\<close>
  | ChangeTray bool                 \<comment> \<open>\<^verbatim>\<open>Settings.store.tray = v\<close>, from anywhere in the app\<close>
  | ChangeDisableMinSize bool
  | ChangeMinimizeToTray bool
  | ChangeMacosTranslucency bool

definition set_win :: "(window \<Rightarrow> window) \<Rightarrow> app_state \<Rightarrow> app_state" where
  "set_win f s = s\<lparr>mainWin := f (mainWin s)\<rparr>"

text \<open>
  A close request runs the \<^verbatim>\<open>close\<close> listeners; unless one of them prevented
  the default, the toolkit then closes the window.
\<close>

definition close_request :: "app_state \<Rightarrow> app_state" where
  "close_request s =
     (case emit_cancellable ''close'' s of
        (prevented, s') \<Rightarrow>
          if prevented then s' else set_win (\<lambda>w. w\<lparr>w_closed := True\<rparr>) s')"

definition page_title_updated :: "string \<Rightarrow> app_state \<Rightarrow> app_state" where
  "page_title_updated t s =
     (case emit_cancellable ''page-title-updated'' s of
        (prevented, s') \<Rightarrow>
          if prevented then s' else set_win (\<lambda>w. w\<lparr>w_title := Some t\<rparr>) s')"

text \<open>The events of the window itself; the toolkit sends none to a closed window.\<close>

fun window_event :: "event \<Rightarrow> app_state \<Rightarrow> app_state" where
  "window_event CloseRequest s = close_request s"
| "window_event ShowWindow s = win_show s"
| "window_event HideWindow s = win_hide s"
| "window_event (MoveWindow x y) s =
     emit ''move'' (set_win (\<lambda>w. w\<lparr>w_bounds := (w_bounds w)\<lparr>rect_x := x, rect_y := y\<rparr>\<rparr>) s)"
| "window_event (ResizeWindow wd ht) s =
     emit ''resize''
       (set_win (\<lambda>w. w\<lparr>w_bounds := (w_bounds w)\<lparr>rect_width := wd, rect_height := ht\<rparr>\<rparr>) s)"
| "window_event MaximizeWindow s = emit ''maximize'' (set_win (\<lambda>w. w\<lparr>w_maximized := True\<rparr>) s)"
| "window_event MinimizeWindow s = emit ''minimize'' (set_win (\<lambda>w. w\<lparr>w_minimized := True\<rparr>) s)"
| "window_event UnmaximizeWindow s =
     emit ''unmaximize'' (set_win (\<lambda>w. w\<lparr>w_maximized := False\<rparr>) s)"
| "window_event RestoreWindow s = emit ''restore'' (set_win (\<lambda>w. w\<lparr>w_minimized := False\<rparr>) s)"
| "window_event (PageTitleUpdated t) s = page_title_updated t s"
| "window_event _ s = s"

fun is_window_event :: "event \<Rightarrow> bool" where
  "is_window_event CloseRequest = True"
| "is_window_event ShowWindow = True"
| "is_window_event HideWindow = True"
| "is_window_event (MoveWindow x y) = True"
| "is_window_event (ResizeWindow wd ht) = True"
| "is_window_event MaximizeWindow = True"
| "is_window_event MinimizeWindow = True"
| "is_window_event UnmaximizeWindow = True"
| "is_window_event RestoreWindow = True"
| "is_window_event (PageTitleUpdated t) = True"
| "is_window_event _ = False"

text \<open>
  The other events. A destroyed tray receives no click; a click on a menu reaches an
  item only while the item is enabled.
\<close>

fun other_event :: "constants \<Rightarrow> event \<Rightarrow> app_state \<Rightarrow> app_state" where
  "other_event c BeforeQuit s = s\<lparr>isQuitting := True\<rparr>"
| "other_event c (ClickTray i) s =
     (if i < length (trays s) \<and> \<not> tray_destroyed (trays s ! i)
      then fold run_action (tray_click (trays s ! i)) s else s)"
| "other_event c (ClickTrayMenu i j) s =
     (if i < length (trays s) \<and> \<not> tray_destroyed (trays s ! i)
      then click_item (tray_menu (trays s ! i)) j s else s)"
| "other_event c (ClickAppMenu j) s =
     (case applicationMenu s of
        Some (Submenu l r items # rest) \<Rightarrow> click_item items j s
      | _ \<Rightarrow> s)"
| "other_event c (DownloadSettled fulfilled) s = download_settled fulfilled s"
| "other_event c (ChangeTray v) s = change_tray c v s"
| "other_event c (ChangeDisableMinSize v) s = change_disableMinSize c v s"
| "other_event c (ChangeMinimizeToTray v) s = change_minimizeToTray c v s"
| "other_event c (ChangeMacosTranslucency v) s = change_macosTranslucency c v s"
| "other_event c _ s = s"

definition step :: "constants \<Rightarrow> event \<Rightarrow> app_state \<Rightarrow> app_state" where
  "step c ev s =
     (if is_window_event ev
      then (if w_closed (mainWin s) then s else window_event ev s)
      else other_event c ev s)"

text \<open>A run of the process: the events are handled one after the other.\<close>

fun run :: "constants \<Rightarrow> event list \<Rightarrow> app_state \<Rightarrow> app_state" where
  "run c [] s = s"
| "run c (ev # evs) s = run c evs (step c ev s)"

section \<open>Observations and invariants\<close>

text \<open>The items of the custom submenu of the installed application menu.\<close>

definition app_submenu :: "app_state \<Rightarrow> menu_item list" where
  "app_submenu s =
     (case applicationMenu s of
        Some (Submenu l r items # rest) \<Rightarrow> items
      | _ \<Rightarrow> [])"

text \<open>
  What an \<^verbatim>\<open>Open\<close> item looks like after one of the two tray listeners has run
  on the menu of tray \<open>t\<close>.
\<close>

definition open_item :: "bool \<Rightarrow> tray_obj \<Rightarrow> tray_obj" where
  "open_item v t = t\<lparr>tray_menu := (tray_menu t)[0 := (tray_menu t ! 0)\<lparr>enabled := v\<rparr>]\<rparr>"

text \<open>The window listeners left behind by \<open>n\<close> calls of \<^verbatim>\<open>initTray\<close>.\<close>

definition tray_listeners :: "nat \<Rightarrow> (string \<times> handler) list" where
  "tray_listeners n = concat (map (\<lambda>i. [(''show'', TrayShow i), (''hide'', TrayHide i)]) [0..<n])"

text \<open>A menu that is \<^const>\<open>trayMenu\<close> up to the \<^verbatim>\<open>enabled\<close> flag of its first item.\<close>

definition menu_of_initTray :: "menu_item list \<Rightarrow> bool" where
  "menu_of_initTray m = (m[0 := (m ! 0)\<lparr>enabled := False\<rparr>] = trayMenu)"

text \<open>The part of a tray that no event changes, up to that flag.\<close>

definition tray_wiring :: "tray_obj \<Rightarrow> menu_item list \<times> action list" where
  "tray_wiring t = (tray_menu t, tray_click t)"

definition tray_of_initTray :: "menu_item list \<times> action list \<Rightarrow> bool" where
  "tray_of_initTray p = (menu_of_initTray (fst p) \<and> snd p = [ActShow])"

text \<open>
  The wiring that \<^const>\<open>createMainWindow\<close> sets up and every event keeps: which
  listeners are registered where, and which menus exist.
\<close>

definition wired :: "app_state \<Rightarrow> bool" where
  "wired s =
     (store_listeners s = [(''tray'', OnTray), (''disableMinSize'', OnDisableMinSize)]
    \<and> vstore_listeners s = [(''macosTranslucency'', OnMacosTranslucency)]
    \<and> (w_cancellable (mainWin s) = [(''close'', ClosePolicy)]
       \<or> w_cancellable (mainWin s) =
           [(''close'', ClosePolicy), (''page-title-updated'', KeepTitle)])
    \<and> w_listeners (mainWin s) =
        [(''maximize'', SaveState), (''minimize'', SaveState), (''unmaximize'', SaveState),
         (''resize'', SaveBounds), (''move'', SaveBounds)] @ tray_listeners (length (trays s))
    \<and> list_all (\<lambda>t. tray_of_initTray (tray_wiring t)) (trays s)
    \<and> map click (app_submenu s) =
        [Some ActAbout, Some ActUpdate, Some ActRelaunch, Some ActQuit, Some ActQuit, None,
         Some ActQuit, Some ActQuickSwitcher])"

subsection \<open>The tray and its setting\<close>

text \<open>Some tray object has not been destroyed.\<close>

definition tray_exists :: "app_state \<Rightarrow> bool" where
  "tray_exists s = list_ex (\<lambda>t. \<not> tray_destroyed t) (trays s)"

text \<open>The setting as the module reads it at construction: \<^verbatim>\<open>Settings.store.tray ?? true\<close>.\<close>

definition tray_setting_on :: "settings \<Rightarrow> bool" where
  "tray_setting_on st = nullish (tray st) True"

text \<open>The value of the first change of the \<^verbatim>\<open>tray\<close> setting in a run, if there is one.\<close>

fun first_tray_change :: "event list \<Rightarrow> bool option" where
  "first_tray_change [] = None"
| "first_tray_change (ChangeTray v # evs) = Some v"
| "first_tray_change (ev # evs) = first_tray_change evs"

text \<open>
  What the tray invariant looks at: the module variable, which trays are destroyed, and
  the setting. The invariant: the variable is unset and there is no tray, with the
  setting off; or the variable holds the last tray, every earlier tray is destroyed, and
  the last one is destroyed exactly when the setting is off.
\<close>

definition tray_view :: "app_state \<Rightarrow> nat option \<times> bool list \<times> bool option" where
  "tray_view s = (tray_var s, map tray_destroyed (trays s), tray (store s))"

fun tray_view_ok :: "nat option \<times> bool list \<times> bool option \<Rightarrow> bool" where
  "tray_view_ok (None, ds, t) = (ds = [] \<and> \<not> nullish t True)"
| "tray_view_ok (Some i, ds, t) = (ds = replicate i True @ [\<not> nullish t True])"

definition tray_inv :: "app_state \<Rightarrow> bool" where
  "tray_inv s = tray_view_ok (tray_view s)"

text \<open>
  The \<^verbatim>\<open>Open\<close> item of every tray menu is enabled exactly when the window is
  hidden.
\<close>

definition open_matches_visibility :: "app_state \<Rightarrow> bool" where
  "open_matches_visibility s =
     list_all (\<lambda>t. enabled (tray_menu t ! 0) = (\<not> w_visible (mainWin s))) (trays s)"

subsection \<open>The Quit items of the application menu\<close>

definition visible_quit :: "menu_item \<Rightarrow> bool" where
  "visible_quit i = (label i = Some ''Quit'' \<and> visible i)"

definition hidden_quit :: "menu_item \<Rightarrow> bool" where
  "hidden_quit i = (label i = Some ''Quit'' \<and> \<not> visible i)"

subsection \<open>A sample process\<close>

definition ex_full_bounds :: saved_bounds where
  "ex_full_bounds = \<lparr>sb_x = Some 10, sb_y = Some 20, sb_width = Some 800, sb_height = Some 600\<rparr>"

definition ex_partial_bounds :: saved_bounds where
  "ex_partial_bounds = \<lparr>sb_x = Some 10, sb_y = None, sb_width = Some 800, sb_height = None\<rparr>"

definition ex_consts :: constants where
  "ex_consts = \<lparr>ICON_PATH = ''static/icon.png'', DEFAULT_WIDTH = 1280, DEFAULT_HEIGHT = 720,
                 MIN_WIDTH = 940, MIN_HEIGHT = 500\<rparr>"

definition ex_settings :: settings where
  "ex_settings = \<lparr>windowBounds = None, disableMinSize = None, staticTitle = None, tray = None,
                   minimizeToTray = None, discordBranch = None, maximized = None, minimized = None\<rparr>"

definition ex_vencord :: vencord_settings where
  "ex_vencord = \<lparr>winCtrlQ = None, frameless = None, macosTranslucency = None\<rparr>"

definition ex_env :: env where
  "ex_env = \<lparr>env_consts = ex_consts, env_platform = ''linux'', env_store = ex_settings,
              env_vstore = ex_vencord, env_placement = (100, 100)\<rparr>"

text \<open>The same process (on Linux), with \<^verbatim>\<open>winCtrlQ\<close> switched off.\<close>

definition ex_env_optout :: env where
  "ex_env_optout = ex_env\<lparr>env_vstore := ex_vencord\<lparr>winCtrlQ := Some False\<rparr>\<rparr>"

section \<open>Properties\<close>

subsection \<open>The wiring is invariant\<close>

lemma tray_listeners_Suc:
  "tray_listeners (Suc n) = tray_listeners n @ [(''show'', TrayShow n), (''hide'', TrayHide n)]"
  by (simp add: tray_listeners_def)

lemma tray_listeners_0: "tray_listeners 0 = []"
  by (simp add: tray_listeners_def)

lemma menu_of_initTray_trayMenu: "menu_of_initTray trayMenu"
  by (simp add: menu_of_initTray_def trayMenu_def item_def)

lemma wired_createMainWindow: "wired (createMainWindow e q)"
  by (simp add: wired_def createMainWindow_def Let_def initSettingsListeners_def call_def initMenuBar_def
      initTray_def win_on_def initWindowBoundsListeners_def win_on_cancellable_def listeners_for_def
      app_submenu_def appMenu_items_def new_BrowserWindow_def tray_listeners_Suc tray_listeners_0
      menu_of_initTray_trayMenu item_def tray_wiring_def tray_of_initTray_def)

lemma set_open_enabled_eq: "set_open_enabled i v ts = ts[i := open_item v (ts ! i)]"
  by (simp add: set_open_enabled_def open_item_def)

lemma listeners_for_Nil: "listeners_for name [] = []"
  by (simp add: listeners_for_def)

lemma listeners_for_Cons:
  "listeners_for name ((n, h) # ls) =
     (if n = name then h # listeners_for name ls else listeners_for name ls)"
  by (simp add: listeners_for_def)

lemma listeners_for_append:
  "listeners_for name (xs @ ys) = listeners_for name xs @ listeners_for name ys"
  by (simp add: listeners_for_def)

lemma listeners_for_tray_listeners:
  "listeners_for name (tray_listeners n) =
     (if name = ''show'' then map TrayShow [0..<n]
      else if name = ''hide'' then map TrayHide [0..<n] else [])"
  by (induction n)
     (simp_all add: tray_listeners_0 tray_listeners_Suc listeners_for_append
        listeners_for_Nil listeners_for_Cons)

lemma map_take_step:
  assumes "n < length xs"
  shows "(map f (take n xs) @ drop n xs)[n := f ((map f (take n xs) @ drop n xs) ! n)]
       = map f (take (Suc n) xs) @ drop (Suc n) xs"
proof -
  have d: "drop n xs = xs ! n # drop (Suc n) xs"
    using assms by (simp add: Cons_nth_drop_Suc)
  have t: "take (Suc n) xs = take n xs @ [xs ! n]"
    using assms by (simp add: take_Suc_conv_app_nth)
  have l: "length (map f (take n xs)) = n"
    using assms by simp
  have "(map f (take n xs) @ drop n xs) ! n = xs ! n"
    using l d by (simp add: nth_append)
  moreover have "(map f (take n xs) @ drop n xs)[n := y] = map f (take n xs) @ y # drop (Suc n) xs" for y
    using l d by (simp add: list_update_append)
  ultimately show ?thesis by (simp add: t)
qed

lemma fold_TrayShow:
  "n \<le> length (trays s) \<Longrightarrow>
   fold run_handler (map TrayShow [0..<n]) s =
     s\<lparr>trays := map (open_item False) (take n (trays s)) @ drop n (trays s)\<rparr>"
proof (induction n)
  case 0
  then show ?case by simp
next
  case (Suc n)
  then have n: "n < length (trays s)" by simp
  show ?case using Suc n by (simp add: set_open_enabled_eq map_take_step)
qed

lemma fold_TrayHide:
  "n \<le> length (trays s) \<Longrightarrow>
   fold run_handler (map TrayHide [0..<n]) s =
     s\<lparr>trays := map (open_item True) (take n (trays s)) @ drop n (trays s)\<rparr>"
proof (induction n)
  case 0
  then show ?case by simp
next
  case (Suc n)
  then have n: "n < length (trays s)" by simp
  show ?case using Suc n by (simp add: set_open_enabled_eq map_take_step)
qed

lemma emit_show: "wired s \<Longrightarrow> emit ''show'' s = s\<lparr>trays := map (open_item False) (trays s)\<rparr>"
  by (simp add: emit_def wired_def listeners_for_Cons listeners_for_tray_listeners fold_TrayShow)

lemma emit_hide: "wired s \<Longrightarrow> emit ''hide'' s = s\<lparr>trays := map (open_item True) (trays s)\<rparr>"
  by (simp add: emit_def wired_def listeners_for_Cons listeners_for_tray_listeners fold_TrayHide)

lemma emit_move: "wired s \<Longrightarrow> emit ''move'' s = saveBounds s"
  by (simp add: emit_def wired_def listeners_for_Cons listeners_for_tray_listeners)

lemma emit_resize: "wired s \<Longrightarrow> emit ''resize'' s = saveBounds s"
  by (simp add: emit_def wired_def listeners_for_Cons listeners_for_tray_listeners)

lemma emit_maximize: "wired s \<Longrightarrow> emit ''maximize'' s = saveState s"
  by (simp add: emit_def wired_def listeners_for_Cons listeners_for_tray_listeners)

lemma emit_minimize: "wired s \<Longrightarrow> emit ''minimize'' s = saveState s"
  by (simp add: emit_def wired_def listeners_for_Cons listeners_for_tray_listeners)

lemma emit_unmaximize: "wired s \<Longrightarrow> emit ''unmaximize'' s = saveState s"
  by (simp add: emit_def wired_def listeners_for_Cons listeners_for_tray_listeners)

lemma emit_restore: "wired s \<Longrightarrow> emit ''restore'' s = s"
  by (simp add: emit_def wired_def listeners_for_Cons listeners_for_tray_listeners)

lemma wired_cong:
  assumes "wired s"
    and "store_listeners s' = store_listeners s"
    and "vstore_listeners s' = vstore_listeners s"
    and "w_cancellable (mainWin s') = w_cancellable (mainWin s)"
    and "w_listeners (mainWin s') = w_listeners (mainWin s)"
    and "map tray_wiring (trays s') = map tray_wiring (trays s)"
    and "applicationMenu s' = applicationMenu s"
  shows "wired s'"
proof -
  have len: "length (trays s') = length (trays s)"
    using assms(6) by (metis length_map)
  have "list_all tray_of_initTray (map tray_wiring (trays s'))"
    using assms(1,6) by (simp add: wired_def list_all_iff)
  then have menus: "list_all (\<lambda>t. tray_of_initTray (tray_wiring t)) (trays s')"
    by (simp add: list_all_iff)
  show ?thesis
    using assms(1-5,7) len menus by (simp add: wired_def app_submenu_def)
qed

lemma menu_of_initTray_open:
  "menu_of_initTray m \<Longrightarrow> menu_of_initTray (m[0 := (m ! 0)\<lparr>enabled := v\<rparr>])"
  by (cases m) (simp_all add: menu_of_initTray_def trayMenu_def)

lemma wired_open: "wired s \<Longrightarrow> wired (s\<lparr>trays := map (open_item v) (trays s)\<rparr>)"
  by (simp add: wired_def app_submenu_def list_all_iff open_item_def menu_of_initTray_open
      tray_wiring_def tray_of_initTray_def)

lemma win_show_eq:
  "wired s \<Longrightarrow>
   win_show s = s\<lparr>mainWin := (mainWin s)\<lparr>w_visible := True\<rparr>,
                   trays := map (open_item False) (trays s)\<rparr>"
proof -
  assume w: "wired s"
  have "wired (s\<lparr>mainWin := (mainWin s)\<lparr>w_visible := True\<rparr>\<rparr>)"
    by (rule wired_cong [OF w]) simp_all
  then show ?thesis by (simp add: win_show_def emit_show)
qed

lemma win_hide_eq:
  "wired s \<Longrightarrow>
   win_hide s = s\<lparr>mainWin := (mainWin s)\<lparr>w_visible := False\<rparr>,
                   trays := map (open_item True) (trays s)\<rparr>"
proof -
  assume w: "wired s"
  have "wired (s\<lparr>mainWin := (mainWin s)\<lparr>w_visible := False\<rparr>\<rparr>)"
    by (rule wired_cong [OF w]) simp_all
  then show ?thesis by (simp add: win_hide_def emit_hide)
qed

lemma wired_win_show: "wired s \<Longrightarrow> wired (win_show s)"
proof -
  assume w: "wired s"
  have "wired (s\<lparr>trays := map (open_item False) (trays s)\<rparr>)"
    using w by (rule wired_open)
  then have "wired (s\<lparr>mainWin := (mainWin s)\<lparr>w_visible := True\<rparr>,
                       trays := map (open_item False) (trays s)\<rparr>)"
    by (rule wired_cong) simp_all
  then show ?thesis using w by (simp add: win_show_eq)
qed

lemma wired_win_hide: "wired s \<Longrightarrow> wired (win_hide s)"
proof -
  assume w: "wired s"
  have "wired (s\<lparr>trays := map (open_item True) (trays s)\<rparr>)"
    using w by (rule wired_open)
  then have "wired (s\<lparr>mainWin := (mainWin s)\<lparr>w_visible := False\<rparr>,
                       trays := map (open_item True) (trays s)\<rparr>)"
    by (rule wired_cong) simp_all
  then show ?thesis using w by (simp add: win_hide_eq)
qed

lemma close_request_eq:
  "wired s \<Longrightarrow>
   close_request s =
     (if isQuitting s \<or> minimizeToTray (store s) = Some False \<or> tray (store s) = Some False
      then set_win (\<lambda>w. w\<lparr>w_closed := True\<rparr>) s
      else win_hide s)"
  by (auto simp: close_request_def emit_cancellable_def wired_def listeners_for_Cons listeners_for_Nil)

lemma wired_set_win:
  "wired s \<Longrightarrow> w_listeners (f (mainWin s)) = w_listeners (mainWin s) \<Longrightarrow>
   w_cancellable (f (mainWin s)) = w_cancellable (mainWin s) \<Longrightarrow> wired (set_win f s)"
  by (erule wired_cong) (simp_all add: set_win_def)

lemma wired_saveState: "wired s \<Longrightarrow> wired (saveState s)"
  by (erule wired_cong) (simp_all add: saveState_def Let_def)

lemma wired_saveBounds: "wired s \<Longrightarrow> wired (saveBounds s)"
  by (erule wired_cong) (simp_all add: saveBounds_def)

lemma wired_close_request: "wired s \<Longrightarrow> wired (close_request s)"
  by (simp add: close_request_eq wired_win_hide wired_set_win)

lemma page_title_updated_eq:
  "wired s \<Longrightarrow>
   page_title_updated t s =
     (if w_cancellable (mainWin s) = [(''close'', ClosePolicy)]
      then set_win (\<lambda>w. w\<lparr>w_title := Some t\<rparr>) s else s)"
  by (auto simp: page_title_updated_def emit_cancellable_def wired_def listeners_for_Cons listeners_for_Nil)

lemma wired_page_title_updated: "wired s \<Longrightarrow> wired (page_title_updated t s)"
  by (simp add: page_title_updated_eq wired_set_win)

lemma wired_window_event: "wired s \<Longrightarrow> wired (window_event ev s)"
  by (cases ev)
     (simp_all add: wired_close_request wired_win_show wired_win_hide wired_page_title_updated
        wired_set_win wired_saveState wired_saveBounds
        emit_move emit_resize emit_maximize emit_minimize emit_unmaximize emit_restore)

lemma wired_call: "wired s \<Longrightarrow> wired (call x s)"
  by (erule wired_cong) (simp_all add: call_def)

lemma wired_isQuitting: "wired s \<Longrightarrow> wired (s\<lparr>isQuitting := b\<rparr>)"
  by (erule wired_cong) simp_all

lemma wired_pending: "wired s \<Longrightarrow> wired (s\<lparr>pending_downloads := n\<rparr>)"
  by (erule wired_cong) simp_all

lemma wired_download_settled: "wired s \<Longrightarrow> wired (download_settled fulfilled s)"
  by (simp add: download_settled_def Let_def wired_pending wired_call)

lemma wired_run_action: "wired s \<Longrightarrow> wired (run_action a s)"
  by (cases a) (simp_all add: wired_win_show wired_call wired_isQuitting wired_pending)

lemma wired_fold_run_action: "wired s \<Longrightarrow> wired (fold run_action as s)"
  by (induction as arbitrary: s) (simp_all add: wired_run_action)

lemma wired_click_item: "wired s \<Longrightarrow> wired (click_item items j s)"
  by (simp add: click_item_def wired_run_action split: option.split)

lemma wired_initTray: "wired s \<Longrightarrow> wired (initTray c s)"
  by (simp add: wired_def initTray_def Let_def win_on_def app_submenu_def tray_listeners_Suc
      menu_of_initTray_trayMenu tray_wiring_def tray_of_initTray_def)

lemma map_update_same: "f x = f (xs ! i) \<Longrightarrow> map f (xs[i := x]) = map f xs"
  by (induction xs arbitrary: i) (auto split: nat.split)

lemma wired_tray_destroy: "wired s \<Longrightarrow> wired (tray_destroy s)"
proof (cases "tray_var s")
  case None
  assume "wired s"
  then show ?thesis using None by (simp add: tray_destroy_def)
next
  case (Some i)
  assume w: "wired s"
  have "map tray_wiring ((trays s)[i := (trays s ! i)\<lparr>tray_destroyed := True\<rparr>])
          = map tray_wiring (trays s)"
    by (rule map_update_same) (simp add: tray_wiring_def)
  then show ?thesis using Some
    by (simp add: tray_destroy_def) (rule wired_cong [OF w], simp_all)
qed

lemma wired_setMinimumSize: "wired s \<Longrightarrow> wired (setMinimumSize a b s)"
  by (erule wired_cong) (simp_all add: setMinimumSize_def)

lemma wired_setBounds_size: "wired s \<Longrightarrow> wired (setBounds_size a b s)"
  by (erule wired_cong) (simp_all add: setBounds_size_def)

lemma wired_setVibrancy: "wired s \<Longrightarrow> wired (setVibrancy v s)"
  by (erule wired_cong) (simp_all add: setVibrancy_def)

lemma wired_setBackgroundColor: "wired s \<Longrightarrow> wired (setBackgroundColor v s)"
  by (erule wired_cong) (simp_all add: setBackgroundColor_def)

lemma wired_run_store_handler: "wired s \<Longrightarrow> wired (run_store_handler c h v s)"
  by (cases h)
     (simp_all add: wired_initTray wired_tray_destroy wired_setMinimumSize wired_setBounds_size
        wired_setVibrancy wired_setBackgroundColor Let_def)

lemma wired_store: "wired s \<Longrightarrow> wired (s\<lparr>store := st\<rparr>)"
  by (erule wired_cong) simp_all

lemma wired_vstore: "wired s \<Longrightarrow> wired (s\<lparr>vstore := st\<rparr>)"
  by (erule wired_cong) simp_all

lemma notify_tray: "wired s \<Longrightarrow> notify c ''tray'' v s = run_store_handler c OnTray v s"
  by (simp add: notify_def wired_def listeners_for_Cons listeners_for_Nil)

lemma notify_disableMinSize:
  "wired s \<Longrightarrow> notify c ''disableMinSize'' v s = run_store_handler c OnDisableMinSize v s"
  by (simp add: notify_def wired_def listeners_for_Cons listeners_for_Nil)

lemma notify_minimizeToTray: "wired s \<Longrightarrow> notify c ''minimizeToTray'' v s = s"
  by (simp add: notify_def wired_def listeners_for_Cons listeners_for_Nil)

lemma vnotify_macosTranslucency:
  "wired s \<Longrightarrow> vnotify c ''macosTranslucency'' v s = run_store_handler c OnMacosTranslucency v s"
  by (simp add: vnotify_def wired_def listeners_for_Cons listeners_for_Nil)

lemma wired_other_event: "wired s \<Longrightarrow> wired (other_event c ev s)"
proof (cases ev)
  case (ClickAppMenu j)
  assume "wired s"
  then show ?thesis using ClickAppMenu
    by (simp add: wired_click_item split: option.split list.split top_item.split)
next
  case (ChangeTray v)
  assume w: "wired s"
  show ?thesis using ChangeTray w
    by (simp add: change_tray_def notify_tray wired_store wired_run_store_handler del: run_store_handler.simps)
next
  case (ChangeDisableMinSize v)
  assume w: "wired s"
  show ?thesis using ChangeDisableMinSize w
    by (simp add: change_disableMinSize_def notify_disableMinSize wired_store wired_run_store_handler
        del: run_store_handler.simps)
next
  case (ChangeMinimizeToTray v)
  assume w: "wired s"
  show ?thesis using ChangeMinimizeToTray w
    by (simp add: change_minimizeToTray_def notify_minimizeToTray wired_store)
next
  case (ChangeMacosTranslucency v)
  assume w: "wired s"
  show ?thesis using ChangeMacosTranslucency w
    by (simp add: change_macosTranslucency_def vnotify_macosTranslucency wired_vstore
        wired_run_store_handler del: run_store_handler.simps)
qed (simp_all add: wired_isQuitting wired_fold_run_action wired_click_item
       wired_download_settled)

lemma wired_step: "wired s \<Longrightarrow> wired (step c ev s)"
  by (simp add: step_def wired_window_event wired_other_event)

lemma wired_run: "wired s \<Longrightarrow> wired (run c evs s)"
  by (induction evs arbitrary: s) (simp_all add: wired_step)

lemma wired_reachable: "wired (run c evs (createMainWindow e q))"
  by (simp add: wired_run wired_createMainWindow)

subsection \<open>What each event does\<close>

lemma window_event_eqs:
  assumes "wired s"
  shows "window_event CloseRequest s =
           (if isQuitting s \<or> minimizeToTray (store s) = Some False \<or> tray (store s) = Some False
            then s\<lparr>mainWin := (mainWin s)\<lparr>w_closed := True\<rparr>\<rparr>
            else s\<lparr>mainWin := (mainWin s)\<lparr>w_visible := False\<rparr>,
                   trays := map (open_item True) (trays s)\<rparr>)"
    and "window_event ShowWindow s =
           s\<lparr>mainWin := (mainWin s)\<lparr>w_visible := True\<rparr>, trays := map (open_item False) (trays s)\<rparr>"
    and "window_event HideWindow s =
           s\<lparr>mainWin := (mainWin s)\<lparr>w_visible := False\<rparr>, trays := map (open_item True) (trays s)\<rparr>"
    and "window_event (MoveWindow x y) s =
           saveBounds (s\<lparr>mainWin := (mainWin s)\<lparr>w_bounds := (w_bounds (mainWin s))\<lparr>rect_x := x, rect_y := y\<rparr>\<rparr>\<rparr>)"
    and "window_event (ResizeWindow wd ht) s =
           saveBounds (s\<lparr>mainWin := (mainWin s)\<lparr>w_bounds := (w_bounds (mainWin s))\<lparr>rect_width := wd, rect_height := ht\<rparr>\<rparr>\<rparr>)"
    and "window_event MaximizeWindow s = saveState (s\<lparr>mainWin := (mainWin s)\<lparr>w_maximized := True\<rparr>\<rparr>)"
    and "window_event MinimizeWindow s = saveState (s\<lparr>mainWin := (mainWin s)\<lparr>w_minimized := True\<rparr>\<rparr>)"
    and "window_event UnmaximizeWindow s = saveState (s\<lparr>mainWin := (mainWin s)\<lparr>w_maximized := False\<rparr>\<rparr>)"
    and "window_event RestoreWindow s = s\<lparr>mainWin := (mainWin s)\<lparr>w_minimized := False\<rparr>\<rparr>"
    and "window_event (PageTitleUpdated t) s =
           (if w_cancellable (mainWin s) = [(''close'', ClosePolicy)]
            then s\<lparr>mainWin := (mainWin s)\<lparr>w_title := Some t\<rparr>\<rparr> else s)"
proof -
  have sw: "wired (set_win f s)"
    if "w_listeners (f (mainWin s)) = w_listeners (mainWin s)"
       "w_cancellable (f (mainWin s)) = w_cancellable (mainWin s)" for f
    using assms that by (rule wired_set_win)
  show "window_event CloseRequest s =
           (if isQuitting s \<or> minimizeToTray (store s) = Some False \<or> tray (store s) = Some False
            then s\<lparr>mainWin := (mainWin s)\<lparr>w_closed := True\<rparr>\<rparr>
            else s\<lparr>mainWin := (mainWin s)\<lparr>w_visible := False\<rparr>,
                   trays := map (open_item True) (trays s)\<rparr>)"
    using assms by (simp add: close_request_eq win_hide_eq set_win_def)
  show "window_event ShowWindow s =
           s\<lparr>mainWin := (mainWin s)\<lparr>w_visible := True\<rparr>, trays := map (open_item False) (trays s)\<rparr>"
    using assms by (simp add: win_show_eq)
  show "window_event HideWindow s =
           s\<lparr>mainWin := (mainWin s)\<lparr>w_visible := False\<rparr>, trays := map (open_item True) (trays s)\<rparr>"
    using assms by (simp add: win_hide_eq)
  show "window_event (MoveWindow x y) s =
           saveBounds (s\<lparr>mainWin := (mainWin s)\<lparr>w_bounds := (w_bounds (mainWin s))\<lparr>rect_x := x, rect_y := y\<rparr>\<rparr>\<rparr>)"
    by (simp add: emit_move sw) (simp add: set_win_def)
  show "window_event (ResizeWindow wd ht) s =
           saveBounds (s\<lparr>mainWin := (mainWin s)\<lparr>w_bounds := (w_bounds (mainWin s))\<lparr>rect_width := wd, rect_height := ht\<rparr>\<rparr>\<rparr>)"
    by (simp add: emit_resize sw) (simp add: set_win_def)
  show "window_event MaximizeWindow s = saveState (s\<lparr>mainWin := (mainWin s)\<lparr>w_maximized := True\<rparr>\<rparr>)"
    by (simp add: emit_maximize sw) (simp add: set_win_def)
  show "window_event MinimizeWindow s = saveState (s\<lparr>mainWin := (mainWin s)\<lparr>w_minimized := True\<rparr>\<rparr>)"
    by (simp add: emit_minimize sw) (simp add: set_win_def)
  show "window_event UnmaximizeWindow s = saveState (s\<lparr>mainWin := (mainWin s)\<lparr>w_maximized := False\<rparr>\<rparr>)"
    by (simp add: emit_unmaximize sw) (simp add: set_win_def)
  show "window_event RestoreWindow s = s\<lparr>mainWin := (mainWin s)\<lparr>w_minimized := False\<rparr>\<rparr>"
    by (simp add: emit_restore sw) (simp add: set_win_def)
  show "window_event (PageTitleUpdated t) s =
           (if w_cancellable (mainWin s) = [(''close'', ClosePolicy)]
            then s\<lparr>mainWin := (mainWin s)\<lparr>w_title := Some t\<rparr>\<rparr> else s)"
    using assms by (simp add: page_title_updated_eq set_win_def)
qed

lemma other_event_ClickAppMenu:
  "other_event c (ClickAppMenu j) s = click_item (app_submenu s) j s"
  by (simp add: app_submenu_def click_item_def split: option.split list.split top_item.split)

lemma step_ChangeTray:
  assumes "wired s"
  shows "step c (ChangeTray v) s =
           (if tray (store s) = Some v then s
            else if v then initTray c (s\<lparr>store := (store s)\<lparr>tray := Some v\<rparr>\<rparr>)
            else tray_destroy (s\<lparr>store := (store s)\<lparr>tray := Some v\<rparr>\<rparr>))"
  using assms by (simp add: step_def change_tray_def notify_tray wired_store)

lemma store_step_ChangeTray:
  "wired s \<Longrightarrow> tray (store (step c (ChangeTray v) s)) = Some v"
  by (simp add: step_ChangeTray initTray_def Let_def win_on_def tray_destroy_def split: option.split)

lemma wired_tray_nth:
  "wired s \<Longrightarrow> i < length (trays s) \<Longrightarrow>
   menu_of_initTray (tray_menu (trays s ! i)) \<and> tray_click (trays s ! i) = [ActShow]"
  by (simp add: wired_def list_all_length tray_wiring_def tray_of_initTray_def)

subsection \<open>Facts about \<^verbatim>\<open>createMainWindow\<close>\<close>

lemmas createMainWindow_defs =
  createMainWindow_def Let_def initSettingsListeners_def call_def initMenuBar_def
  initTray_def win_on_def initWindowBoundsListeners_def win_on_cancellable_def

lemma isQuitting_createMainWindow: "isQuitting (createMainWindow e q) = q"
  by (simp add: createMainWindow_def Let_def initSettingsListeners_def call_def initMenuBar_def
      initTray_def win_on_def initWindowBoundsListeners_def win_on_cancellable_def)

lemma store_createMainWindow: "store (createMainWindow e q) = env_store e"
  by (simp add: createMainWindow_defs)

lemma createMainWindow_trays:
  "trays (createMainWindow e q) =
     (if nullish (tray (env_store e)) True
      then [\<lparr>tray_icon = ICON_PATH (env_consts e), tray_toolTip = Some ''Vencord Desktop'',
              tray_menu = trayMenu, tray_click = [ActShow], tray_destroyed = False\<rparr>]
      else [])"
  by (simp add: createMainWindow_def Let_def initSettingsListeners_def call_def initMenuBar_def
      initTray_def win_on_def initWindowBoundsListeners_def win_on_cancellable_def)

lemma createMainWindow_visible: "\<not> w_visible (mainWin (createMainWindow e q))"
  by (simp add: createMainWindow_def Let_def initSettingsListeners_def call_def initMenuBar_def
      initTray_def win_on_def initWindowBoundsListeners_def win_on_cancellable_def
      new_BrowserWindow_def main_options_def)

lemma createMainWindow_app_submenu:
  "app_submenu (createMainWindow e q) = appMenu_items (env_platform e) (env_vstore e)"
  by (simp add: createMainWindow_defs app_submenu_def)

lemma initMenuBar_app_submenu: "app_submenu (initMenuBar p s) = appMenu_items p (vstore s)"
  by (simp add: initMenuBar_def app_submenu_def)

lemma appMenu_items_quit:
  "map accelerator (filter visible_quit (appMenu_items p vs))
     = [if p = ''win32'' then Some ''Alt+F4'' else Some ''CmdOrCtrl+Q'']
   \<and> map accelerator (filter hidden_quit (appMenu_items p vs))
     = [if p = ''win32'' \<and> truthy (winCtrlQ vs) then Some ''CmdOrCtrl+Q'' else None,
        Some ''CmdOrCtrl+Q'']"
  by (simp add: appMenu_items_def Let_def item_def visible_quit_def hidden_quit_def)

lemma createMainWindow_url:
  "w_url (mainWin (createMainWindow e q)) = Some (main_url (env_store e))"
  by (simp add: createMainWindow_def Let_def initSettingsListeners_def call_def initMenuBar_def
      initTray_def win_on_def initWindowBoundsListeners_def win_on_cancellable_def)

subsection \<open>The quitting flag\<close>

lemma click_of_initTray:
  "menu_of_initTray m \<Longrightarrow>
   map click m = [Some ActShow, Some ActAbout, Some ActUpdate, None, Some ActRelaunch, Some ActTrayQuit]"
proof (cases m)
  case Nil
  assume "menu_of_initTray m"
  then show ?thesis using Nil by (simp add: menu_of_initTray_def trayMenu_def)
next
  case (Cons a rest)
  assume "menu_of_initTray m"
  then have "a\<lparr>enabled := False\<rparr> # rest = trayMenu"
    using Cons by (simp add: menu_of_initTray_def)
  then have "map click (a\<lparr>enabled := False\<rparr> # rest) = map click trayMenu" by simp
  then show ?thesis using Cons by (simp add: trayMenu_def item_def)
qed

lemma menu_of_initTray_shape:
  "menu_of_initTray m \<Longrightarrow> \<exists>a. m = a # tl trayMenu \<and> a\<lparr>enabled := False\<rparr> = hd trayMenu"
  by (cases m) (auto simp: menu_of_initTray_def trayMenu_def)

lemma quit_item_of_initTray:
  assumes "menu_of_initTray m"
  shows "(j < length m \<and> enabled (m ! j) \<and> click (m ! j) = Some ActTrayQuit) = (j = 5)"
proof -
  obtain a where m: "m = a # tl trayMenu" and a: "a\<lparr>enabled := False\<rparr> = hd trayMenu"
    using assms menu_of_initTray_shape by blast
  have "click (a\<lparr>enabled := False\<rparr>) = Some ActShow"
    unfolding a by (simp add: trayMenu_def item_def)
  then have ca: "click a = Some ActShow" by simp
  have len: "length m = 6" unfolding m by (simp add: trayMenu_def)
  show ?thesis
  proof (cases "j < 6")
    case False
    then show ?thesis using len by simp
  next
    case True
    then consider "j = 0" | "j = 1" | "j = 2" | "j = 3" | "j = 4" | "j = 5" by linarith
    then show ?thesis
      by cases (simp_all add: m ca trayMenu_def item_def)
  qed
qed

lemma no_tray_quit_in_app_menu:
  assumes "wired s"
  shows "\<not> (j < length (app_submenu s) \<and> enabled (app_submenu s ! j)
            \<and> click (app_submenu s ! j) = Some ActTrayQuit)"
proof
  assume h: "j < length (app_submenu s) \<and> enabled (app_submenu s ! j)
            \<and> click (app_submenu s ! j) = Some ActTrayQuit"
  then have "Some ActTrayQuit \<in> set (map click (app_submenu s))"
    by (metis length_map nth_map nth_mem)
  moreover have "map click (app_submenu s) =
        [Some ActAbout, Some ActUpdate, Some ActRelaunch, Some ActQuit, Some ActQuit, None,
         Some ActQuit, Some ActQuickSwitcher]"
    using assms by (simp add: wired_def)
  ultimately show False by (simp only: set_simps) simp
qed

lemma isQuitting_run_action:
  "wired s \<Longrightarrow> isQuitting (run_action a s) = (isQuitting s \<or> a = ActTrayQuit)"
  by (cases a) (simp_all add: win_show_eq call_def)

lemma isQuitting_click_item:
  "wired s \<Longrightarrow>
   isQuitting (click_item items j s) =
     (isQuitting s \<or> (j < length items \<and> enabled (items ! j) \<and> click (items ! j) = Some ActTrayQuit))"
  by (auto simp: click_item_def isQuitting_run_action split: option.split)

lemma isQuitting_run_store_handler:
  "isQuitting (run_store_handler c h v s) = isQuitting s"
  by (cases h)
     (simp_all add: initTray_def tray_destroy_def win_on_def setMinimumSize_def setBounds_size_def
        setVibrancy_def setBackgroundColor_def Let_def split: option.split)

lemma isQuitting_window_event:
  "wired s \<Longrightarrow> isQuitting (window_event ev s) = isQuitting s"
  by (cases ev)
     (simp_all add: window_event_eqs saveState_def saveBounds_def Let_def del: window_event.simps,
      simp_all)

lemma isQuitting_other_event:
  assumes "wired s"
  shows "isQuitting (other_event c ev s) =
           (isQuitting s \<or> ev = BeforeQuit
            \<or> (\<exists>i. ev = ClickTrayMenu i 5 \<and> i < length (trays s) \<and> \<not> tray_destroyed (trays s ! i)))"
proof (cases ev)
  case (ClickTray i)
  then show ?thesis
    using assms wired_tray_nth [OF assms, of i] by (simp add: win_show_eq)
next
  case (ClickTrayMenu i j)
  show ?thesis
  proof (cases "i < length (trays s) \<and> \<not> tray_destroyed (trays s ! i)")
    case True
    then have "menu_of_initTray (tray_menu (trays s ! i))"
      using wired_tray_nth [OF assms] by simp
    then show ?thesis
      using ClickTrayMenu True assms
      by (simp add: isQuitting_click_item quit_item_of_initTray)
  next
    case False
    then show ?thesis using ClickTrayMenu by auto
  qed
next
  case (ClickAppMenu j)
  then show ?thesis
    using assms no_tray_quit_in_app_menu [OF assms, of j]
    by (auto simp add: other_event_ClickAppMenu isQuitting_click_item simp del: other_event.simps)
next
  case (ChangeTray v)
  then show ?thesis
    using assms
    by (simp add: change_tray_def notify_tray wired_store isQuitting_run_store_handler
        del: run_store_handler.simps)
next
  case (ChangeDisableMinSize v)
  then show ?thesis
    using assms
    by (simp add: change_disableMinSize_def notify_disableMinSize wired_store
        isQuitting_run_store_handler del: run_store_handler.simps)
next
  case (ChangeMinimizeToTray v)
  then show ?thesis
    using assms by (simp add: change_minimizeToTray_def notify_minimizeToTray wired_store)
next
  case (ChangeMacosTranslucency v)
  then show ?thesis
    using assms
    by (simp add: change_macosTranslucency_def vnotify_macosTranslucency wired_vstore
        isQuitting_run_store_handler del: run_store_handler.simps)
qed (simp_all add: download_settled_def call_def Let_def)

lemma isQuitting_step:
  assumes "wired s"
  shows "isQuitting (step c ev s) =
           (isQuitting s \<or> ev = BeforeQuit
            \<or> (\<exists>i. ev = ClickTrayMenu i 5 \<and> i < length (trays s) \<and> \<not> tray_destroyed (trays s ! i)))"
proof (cases "is_window_event ev")
  case True
  then have "ev \<noteq> BeforeQuit" "\<And>i. ev \<noteq> ClickTrayMenu i 5" by auto
  then show ?thesis using True assms by (simp add: step_def isQuitting_window_event)
next
  case False
  then show ?thesis using assms by (simp add: step_def isQuitting_other_event)
qed

lemma isQuitting_run: "wired s \<Longrightarrow> isQuitting s \<Longrightarrow> isQuitting (run c evs s)"
  by (induction evs arbitrary: s) (simp_all add: wired_step isQuitting_step)

subsection \<open>The \<^verbatim>\<open>Open\<close> item\<close>

lemma open_item_enabled:
  "menu_of_initTray (tray_menu t) \<Longrightarrow> enabled (tray_menu (open_item v t) ! 0) = v"
  by (cases "tray_menu t") (simp_all add: open_item_def menu_of_initTray_def trayMenu_def)

lemma all_open_items:
  "wired s \<Longrightarrow> list_all (\<lambda>t. enabled (tray_menu t ! 0) = v) (map (open_item v) (trays s))"
  by (simp add: wired_def list_all_iff open_item_enabled tray_wiring_def tray_of_initTray_def)

subsection \<open>The tray invariant\<close>

lemma tray_inv_exists:
  assumes "tray_inv s"
  shows "tray_exists s = tray_setting_on (store s)"
    and "length (filter (\<lambda>t. \<not> tray_destroyed t) (trays s)) \<le> 1"
proof -
  define ds where "ds = map tray_destroyed (trays s)"
  have ex: "tray_exists s = list_ex Not ds"
    by (simp add: tray_exists_def ds_def list_ex_iff)
  have len: "length (filter (\<lambda>t. \<not> tray_destroyed t) (trays s)) = length (filter Not ds)"
    by (simp add: ds_def filter_map comp_def)
  have shape: "ds = [] \<and> \<not> tray_setting_on (store s)
             \<or> (\<exists>i. ds = replicate i True @ [\<not> tray_setting_on (store s)])"
    using assms by (cases "tray_var s") (simp_all add: tray_inv_def tray_view_def ds_def tray_setting_on_def)
  show "tray_exists s = tray_setting_on (store s)"
    unfolding ex using shape by (auto simp: list_ex_iff)
  show "length (filter (\<lambda>t. \<not> tray_destroyed t) (trays s)) \<le> 1"
    unfolding len using shape by auto
qed

lemma tray_inv_createMainWindow: "tray_inv (createMainWindow e q)"
  by (simp add: tray_inv_def tray_view_def createMainWindow_defs)

lemma destroyed_open_item: "tray_destroyed (open_item v t) = tray_destroyed t"
  by (simp add: open_item_def)

lemma tray_view_run_action: "wired s \<Longrightarrow> tray_view (run_action a s) = tray_view s"
  by (cases a) (simp_all add: tray_view_def win_show_eq call_def destroyed_open_item)

lemma tray_view_click_item: "wired s \<Longrightarrow> tray_view (click_item items j s) = tray_view s"
  by (simp add: click_item_def tray_view_run_action split: option.split)

lemma tray_view_window_event: "wired s \<Longrightarrow> tray_view (window_event ev s) = tray_view s"
  by (cases ev)
     (simp_all add: window_event_eqs saveState_def saveBounds_def Let_def tray_view_def
        destroyed_open_item del: window_event.simps,
      simp_all)

lemma tray_view_other_event:
  assumes "wired s" and "\<And>v. ev \<noteq> ChangeTray v"
  shows "tray_view (other_event c ev s) = tray_view s"
proof (cases ev)
  case (ClickTray i)
  then show ?thesis
    using assms(1) wired_tray_nth [OF assms(1), of i]
    by (simp add: win_show_eq tray_view_def destroyed_open_item)
next
  case (ClickTrayMenu i j)
  then show ?thesis using assms(1) by (simp add: tray_view_click_item)
next
  case (ClickAppMenu j)
  then show ?thesis
    using assms(1) by (simp add: other_event_ClickAppMenu tray_view_click_item del: other_event.simps)
next
  case (ChangeTray v)
  then show ?thesis using assms(2) by simp
next
  case (ChangeDisableMinSize v)
  then show ?thesis
    using assms(1)
    by (simp add: change_disableMinSize_def notify_disableMinSize wired_store)
       (simp add: tray_view_def setMinimumSize_def setBounds_size_def Let_def)
next
  case (ChangeMinimizeToTray v)
  then show ?thesis
    using assms(1)
    by (simp add: change_minimizeToTray_def notify_minimizeToTray wired_store) (simp add: tray_view_def)
next
  case (ChangeMacosTranslucency v)
  then show ?thesis
    using assms(1)
    by (simp add: change_macosTranslucency_def vnotify_macosTranslucency wired_vstore)
       (simp add: tray_view_def setVibrancy_def setBackgroundColor_def)
qed (simp_all add: tray_view_def download_settled_def call_def Let_def)

lemma tray_view_step:
  assumes "wired s" and "\<And>v. ev \<noteq> ChangeTray v"
  shows "tray_view (step c ev s) = tray_view s"
  using assms by (simp add: step_def tray_view_window_event tray_view_other_event)

lemma replicate_update_last: "(replicate i True @ [b])[i := True] = replicate (Suc i) True"
  by (simp add: list_update_append replicate_append_same)

lemma tray_inv_ChangeTray:
  assumes "wired s" and "tray_inv s" and "\<not> (tray (store s) = None \<and> v)"
  shows "tray_inv (step c (ChangeTray v) s)"
proof (cases "tray (store s) = Some v")
  case True
  then show ?thesis using assms by (simp add: step_ChangeTray)
next
  case False
  show ?thesis
  proof (cases v)
    case True
    then have off: "tray (store s) = Some False" using False assms(3) by (cases "tray (store s)") auto
    have "map tray_destroyed (trays s) = replicate (length (trays s)) True"
    proof (cases "tray_var s")
      case None
      then show ?thesis using assms(2) by (simp add: tray_inv_def tray_view_def)
    next
      case (Some i)
      then have d: "map tray_destroyed (trays s) = replicate (Suc i) True"
        using assms(2) off by (simp add: tray_inv_def tray_view_def replicate_append_same)
      then have "length (map tray_destroyed (trays s)) = Suc i" by simp
      then have "length (trays s) = Suc i" by simp
      then show ?thesis using d by simp
    qed
    then show ?thesis
      using True False assms(1)
      by (simp add: step_ChangeTray initTray_def Let_def win_on_def tray_inv_def tray_view_def)
  next
    case f: False
    show ?thesis
    proof (cases "tray_var s")
      case None
      then show ?thesis
        using f False assms(1,2)
        by (simp add: step_ChangeTray tray_destroy_def tray_inv_def tray_view_def)
    next
      case (Some i)
      then have d: "map tray_destroyed (trays s) = replicate i True @ [\<not> tray_setting_on (store s)]"
        using assms(2) by (simp add: tray_inv_def tray_view_def tray_setting_on_def)
      have "map tray_destroyed ((trays s)[i := (trays s ! i)\<lparr>tray_destroyed := True\<rparr>])
              = (map tray_destroyed (trays s))[i := True]"
        by (simp add: map_update)
      then have "map tray_destroyed ((trays s)[i := (trays s ! i)\<lparr>tray_destroyed := True\<rparr>])
              = replicate i True @ [True]"
        by (simp add: d replicate_update_last replicate_append_same)
      then show ?thesis
        using f False Some assms(1)
        by (simp add: step_ChangeTray tray_destroy_def tray_inv_def tray_view_def)
    qed
  qed
qed

lemma tray_inv_run:
  "wired s \<Longrightarrow> tray_inv s \<Longrightarrow> (tray (store s) = None \<longrightarrow> first_tray_change evs \<noteq> Some True) \<Longrightarrow>
   tray_inv (run c evs s)"
proof (induction evs arbitrary: s)
  case Nil
  then show ?case by simp
next
  case (Cons ev evs)
  show ?case
  proof (cases "\<exists>v. ev = ChangeTray v")
    case True
    then obtain v where ev: "ev = ChangeTray v" by blast
    have "\<not> (tray (store s) = None \<and> v)"
      using Cons.prems(3) by (auto simp: ev)
    then have "tray_inv (step c ev s)"
      unfolding ev using Cons.prems(1,2) by (intro tray_inv_ChangeTray)
    moreover have "tray (store (step c ev s)) = Some v"
      unfolding ev using Cons.prems(1) by (rule store_step_ChangeTray)
    moreover have "wired (step c ev s)"
      using Cons.prems(1) by (rule wired_step)
    ultimately have "tray_inv (run c evs (step c ev s))"
      by (intro Cons.IH) simp_all
    then show ?thesis by simp
  next
    case False
    then have ne: "\<And>v. ev \<noteq> ChangeTray v" by blast
    have v: "tray_view (step c ev s) = tray_view s"
      using Cons.prems(1) ne by (rule tray_view_step)
    then have "tray_inv (step c ev s)" using Cons.prems(2) by (simp add: tray_inv_def tray_view_def)
    moreover have "tray (store (step c ev s)) = tray (store s)"
      using v by (simp add: tray_view_def)
    moreover have "first_tray_change (ev # evs) = first_tray_change evs"
    proof (cases ev)
      case (ChangeTray v)
      then show ?thesis using ne by blast
    qed simp_all
    moreover have "wired (step c ev s)"
      using Cons.prems(1) by (rule wired_step)
    ultimately have "tray_inv (run c evs (step c ev s))"
      using Cons.prems(3) by (intro Cons.IH) simp_all
    then show ?thesis by simp
  qed
qed

text \<open>
  What the listener achieves on the other runs. A tray exists after construction
  exactly when the setting is on. On a run in which the setting is not changed to
  \<^verbatim>\<open>true\<close> while it is still absent, a tray that is not destroyed exists exactly
  when the setting is on, there is at most one, a change of a present setting to
  \<^verbatim>\<open>true\<close> leaves a tray in existence and a change to \<^verbatim>\<open>false\<close> leaves
  none.
\<close>

lemma tray_in_sync_on_other_runs:
  assumes "s = run c evs (createMainWindow e q)"
  shows "tray_exists (createMainWindow e q) = tray_setting_on (env_store e)
       \<and> ((tray (env_store e) = None \<longrightarrow> first_tray_change evs \<noteq> Some True) \<longrightarrow>
            tray_exists s = tray_setting_on (store s)
          \<and> length (filter (\<lambda>t. \<not> tray_destroyed t) (trays s)) \<le> 1
          \<and> (tray (store s) \<noteq> None \<longrightarrow> tray_exists (step c (ChangeTray True) s))
          \<and> \<not> tray_exists (step c (ChangeTray False) s))"
proof -
  have w: "wired s" using assms by (simp add: wired_reachable)
  have init: "tray_exists (createMainWindow e q) = tray_setting_on (env_store e)"
    using tray_inv_exists(1) [OF tray_inv_createMainWindow, of e q]
    by (simp add: store_createMainWindow)
  have after: "tray_exists (step c (ChangeTray v) s) = v"
    if inv: "tray_inv s" and ok: "\<not> (tray (store s) = None \<and> v)" for v
  proof -
    have "tray_inv (step c (ChangeTray v) s)"
      using w inv ok by (rule tray_inv_ChangeTray)
    then have "tray_exists (step c (ChangeTray v) s)
                 = tray_setting_on (store (step c (ChangeTray v) s))"
      by (rule tray_inv_exists)
    then show ?thesis
      using w by (simp add: tray_setting_on_def store_step_ChangeTray)
  qed
  show ?thesis
  proof (intro conjI impI)
    assume h: "tray (env_store e) = None \<longrightarrow> first_tray_change evs \<noteq> Some True"
    have inv: "tray_inv s"
      unfolding assms
      using h
      by (intro tray_inv_run wired_createMainWindow tray_inv_createMainWindow)
         (simp add: store_createMainWindow)
    show "tray_exists s = tray_setting_on (store s)"
      using inv by (rule tray_inv_exists)
    show "length (filter (\<lambda>t. \<not> tray_destroyed t) (trays s)) \<le> 1"
      using inv by (rule tray_inv_exists)
    show "tray_exists (step c (ChangeTray True) s)" if "tray (store s) \<noteq> None"
      using after [OF inv, of True] that by simp
    show "\<not> tray_exists (step c (ChangeTray False) s)"
      using after [OF inv, of False] by simp
  qed (rule init)
qed

section \<open>The claims\<close>

subsection \<open>The close policy\<close>

text \<open>
  C1. A close request reaches a window that is not yet closed, at any point of a run
  that started with \<^verbatim>\<open>createMainWindow\<close>. If the quitting flag is set, or
  \<^verbatim>\<open>minimizeToTray\<close> is \<^verbatim>\<open>false\<close>, or \<^verbatim>\<open>tray\<close> is \<^verbatim>\<open>false\<close>,
  the close proceeds: the window is closed, and the listener has not hidden it.
  Otherwise the close is cancelled and the window is hidden: it stays alive and is
  not visible. In both cases the module asks nothing of the app object (no
  \<^verbatim>\<open>app.quit()\<close>), and the quitting flag keeps its value.
\<close>

theorem close_policy:
  assumes "s = run (env_consts e) evs (createMainWindow e q)"
    and "\<not> w_closed (mainWin s)"
    and "s' = step (env_consts e) CloseRequest s"
  shows "(if isQuitting s \<or> minimizeToTray (store s) = Some False \<or> tray (store s) = Some False
          then w_closed (mainWin s') \<and> w_visible (mainWin s') = w_visible (mainWin s)
          else \<not> w_closed (mainWin s') \<and> \<not> w_visible (mainWin s'))
       \<and> calls s' = calls s \<and> isQuitting s' = isQuitting s"
proof -
  have w: "wired s" using assms(1) by (simp add: wired_reachable)
  show ?thesis
    using assms(2,3) w by (simp add: step_def close_request_eq win_hide_eq set_win_def)
qed

theorem close_policy_witness:
  "\<not> w_closed (mainWin (run (env_consts ex_env) [ShowWindow] (createMainWindow ex_env False)))
   \<and> w_visible (mainWin (run (env_consts ex_env) [ShowWindow] (createMainWindow ex_env False)))
   \<and> \<not> w_closed (mainWin (step (env_consts ex_env) CloseRequest
         (run (env_consts ex_env) [ShowWindow] (createMainWindow ex_env False))))
   \<and> \<not> w_visible (mainWin (step (env_consts ex_env) CloseRequest
         (run (env_consts ex_env) [ShowWindow] (createMainWindow ex_env False))))"
proof -
  let ?s = "run (env_consts ex_env) [ShowWindow] (createMainWindow ex_env False)"
  have a: "\<not> w_closed (mainWin ?s)" by code_simp
  have b: "w_visible (mainWin ?s)" by code_simp
  have c: "\<not> (isQuitting ?s \<or> minimizeToTray (store ?s) = Some False \<or> tray (store ?s) = Some False)"
    by code_simp
  show ?thesis
    using close_policy [OF refl a refl] a b c by simp
qed

subsection \<open>The tray and its setting\<close>

text \<open>
  C2. The claim: at every point after \<^verbatim>\<open>createMainWindow\<close> a tray icon object
  exists if and only if the \<^verbatim>\<open>tray\<close> setting is on. The code breaks it on the
  following run. The setting is absent, so \<^verbatim>\<open>createMainWindow\<close> creates a tray
  (absent counts as \<^verbatim>\<open>true\<close>). The setting is then changed to \<^verbatim>\<open>true\<close>:
  the listener calls \<^verbatim>\<open>initTray\<close> again, a second tray is created and the
  module variable now holds the second. The setting is then changed to
  \<^verbatim>\<open>false\<close>: the listener destroys the tray in the variable, the second, and the
  first stays. A tray exists while the setting is \<^verbatim>\<open>false\<close>. The last conjunct
  is the same with the listener called directly, first with \<^verbatim>\<open>true\<close>, then with
  \<^verbatim>\<open>false\<close>.
\<close>

theorem tray_outlives_setting:
  "tray (env_store ex_env) = None
   \<and> map tray_destroyed (trays (createMainWindow ex_env False)) = [False]
   \<and> map tray_destroyed (trays (run ex_consts [ChangeTray True] (createMainWindow ex_env False)))
       = [False, False]
   \<and> tray_var (run ex_consts [ChangeTray True] (createMainWindow ex_env False)) = Some 1
   \<and> tray (store (run ex_consts [ChangeTray True, ChangeTray False] (createMainWindow ex_env False)))
       = Some False
   \<and> map tray_destroyed
        (trays (run ex_consts [ChangeTray True, ChangeTray False] (createMainWindow ex_env False)))
       = [False, True]
   \<and> tray_exists (run ex_consts [ChangeTray True, ChangeTray False] (createMainWindow ex_env False))
   \<and> \<not> tray_setting_on
          (store (run ex_consts [ChangeTray True, ChangeTray False] (createMainWindow ex_env False)))
   \<and> map tray_destroyed
        (trays (run_store_handler ex_consts OnTray False
                 (run_store_handler ex_consts OnTray True (createMainWindow ex_env False))))
       = [False, True]"
  by code_simp

subsection \<open>The Quit items\<close>

text \<open>
  C3 (amended). In the application menu built by \<^verbatim>\<open>initMenuBar\<close> exactly one
  item labelled Quit is visible. On every platform but Windows it is bound to
  \<^verbatim>\<open>CmdOrCtrl+Q\<close>, whatever the \<^verbatim>\<open>winCtrlQ\<close> setting says; on Windows it is
  bound to \<^verbatim>\<open>Alt+F4\<close>. Two more Quit items are hidden. The first has no
  accelerator, except on Windows with \<^verbatim>\<open>winCtrlQ\<close> truthy, where it is bound to
  \<^verbatim>\<open>CmdOrCtrl+Q\<close>: the setting acts on Windows only. The second is bound to
  \<^verbatim>\<open>CmdOrCtrl+Q\<close> in all cases. The menu that \<^verbatim>\<open>createMainWindow\<close> installs
  is this one, for the platform and the settings of the process.
\<close>

theorem quit_items:
  "map accelerator (filter visible_quit (app_submenu (initMenuBar platform s)))
     = [if platform = ''win32'' then Some ''Alt+F4'' else Some ''CmdOrCtrl+Q'']
   \<and> map accelerator (filter hidden_quit (app_submenu (initMenuBar platform s)))
     = [if platform = ''win32'' \<and> truthy (winCtrlQ (vstore s)) then Some ''CmdOrCtrl+Q'' else None,
        Some ''CmdOrCtrl+Q'']
   \<and> map accelerator (filter visible_quit (app_submenu (createMainWindow e q)))
     = [if env_platform e = ''win32'' then Some ''Alt+F4'' else Some ''CmdOrCtrl+Q'']
   \<and> map accelerator (filter hidden_quit (app_submenu (createMainWindow e q)))
     = [if env_platform e = ''win32'' \<and> truthy (winCtrlQ (env_vstore e))
        then Some ''CmdOrCtrl+Q'' else None,
        Some ''CmdOrCtrl+Q'']"
  by (simp only: initMenuBar_app_submenu createMainWindow_app_submenu appMenu_items_quit)

theorem quit_items_witness:
  "map accelerator (filter visible_quit (app_submenu (initMenuBar ''win32'' (createMainWindow ex_env_optout False))))
     = [Some ''Alt+F4'']
   \<and> map accelerator (filter hidden_quit (app_submenu (initMenuBar ''win32'' (createMainWindow ex_env_optout False))))
     = [None, Some ''CmdOrCtrl+Q'']
   \<and> map accelerator (filter visible_quit (app_submenu (createMainWindow ex_env_optout False)))
     = [Some ''CmdOrCtrl+Q'']
   \<and> map accelerator (filter hidden_quit (app_submenu (createMainWindow ex_env_optout False)))
     = [None, Some ''CmdOrCtrl+Q'']"
proof -
  have p: "env_platform ex_env_optout = ''linux''"
    by (simp add: ex_env_optout_def ex_env_def)
  have v: "winCtrlQ (vstore (createMainWindow ex_env_optout False)) = Some False"
    by code_simp
  show ?thesis
    using quit_items [of "''win32''" "createMainWindow ex_env_optout False" ex_env_optout False] p v
    by simp
qed

text \<open>
  The setting does not remove the binding outside Windows: on Linux with
  \<^verbatim>\<open>winCtrlQ\<close> false the visible Quit item still carries \<^verbatim>\<open>CmdOrCtrl+Q\<close>.
\<close>

theorem quit_items_counterexample:
  "env_platform ex_env_optout \<noteq> ''win32''
   \<and> winCtrlQ (vstore (createMainWindow ex_env_optout False)) = Some False
   \<and> map accelerator (filter visible_quit (app_submenu (createMainWindow ex_env_optout False)))
       = [Some ''CmdOrCtrl+Q'']"
  by code_simp

subsection \<open>The loaded URL\<close>

text \<open>
  C4. The URL that \<^verbatim>\<open>createMainWindow\<close> loads depends on the
  \<^verbatim>\<open>discordBranch\<close> setting alone: it is \<^verbatim>\<open>https://HOST/app\<close>, where the
  host is \<^verbatim>\<open>canary.discord.com\<close> for the value \<^verbatim>\<open>canary\<close>,
  \<^verbatim>\<open>ptb.discord.com\<close> for \<^verbatim>\<open>ptb\<close>, and \<^verbatim>\<open>discord.com\<close> for any
  other value and for an absent one. So three hosts are possible.
\<close>

theorem loaded_url_by_branch:
  "w_url (mainWin (createMainWindow e q)) =
     Some (''https://''
           @ (if discordBranch (env_store e) = Some ''canary'' then ''canary.discord.com''
              else if discordBranch (env_store e) = Some ''ptb'' then ''ptb.discord.com''
              else ''discord.com'')
           @ ''/app'')"
  by (simp add: createMainWindow_url main_url_def subdomain_def split: option.split)

theorem loaded_url_by_branch_witness:
  "discordBranch (env_store (ex_env\<lparr>env_store := ex_settings\<lparr>discordBranch := Some ''canary''\<rparr>\<rparr>))
     = Some ''canary''
   \<and> w_url (mainWin (createMainWindow
         (ex_env\<lparr>env_store := ex_settings\<lparr>discordBranch := Some ''canary''\<rparr>\<rparr>) False))
     = Some ''https://canary.discord.com/app''"
  using loaded_url_by_branch
          [of "ex_env\<lparr>env_store := ex_settings\<lparr>discordBranch := Some ''canary''\<rparr>\<rparr>" False]
  by (simp add: ex_env_def ex_settings_def)

subsection \<open>Window bounds options\<close>

text \<open>
  C5. For every persisted \<^verbatim>\<open>windowBounds\<close>, absent or partial: the width of
  the options is the persisted width when the record and its width are present, and
  \<^verbatim>\<open>DEFAULT_WIDTH\<close> otherwise; the same for the height with
  \<^verbatim>\<open>DEFAULT_HEIGHT\<close>. When the record has both x and y, the options carry that
  x and that y; in every other case they carry neither, so never one axis alone. The
  minimum-size options are absent when \<^verbatim>\<open>disableMinSize\<close> is true and are the
  two minimum constants otherwise. These are the bounds options that
  \<^verbatim>\<open>createMainWindow\<close> passes to the window constructor.
\<close>

theorem getWindowBoundsOptions_spec:
  fixes c :: constants and st :: settings
  defines "r \<equiv> getWindowBoundsOptions c st"
  shows "opt_width r =
           (case windowBounds st of
              None \<Rightarrow> DEFAULT_WIDTH c
            | Some b \<Rightarrow> (case sb_width b of None \<Rightarrow> DEFAULT_WIDTH c | Some w \<Rightarrow> w))
       \<and> opt_height r =
           (case windowBounds st of
              None \<Rightarrow> DEFAULT_HEIGHT c
            | Some b \<Rightarrow> (case sb_height b of None \<Rightarrow> DEFAULT_HEIGHT c | Some h \<Rightarrow> h))
       \<and> opt_x r =
           (case windowBounds st of
              None \<Rightarrow> None
            | Some b \<Rightarrow> if sb_x b \<noteq> None \<and> sb_y b \<noteq> None then sb_x b else None)
       \<and> opt_y r =
           (case windowBounds st of
              None \<Rightarrow> None
            | Some b \<Rightarrow> if sb_x b \<noteq> None \<and> sb_y b \<noteq> None then sb_y b else None)
       \<and> ((opt_x r \<noteq> None) = (opt_y r \<noteq> None))
       \<and> opt_minWidth r = (if disableMinSize st = Some True then None else Some (MIN_WIDTH c))
       \<and> opt_minHeight r = (if disableMinSize st = Some True then None else Some (MIN_HEIGHT c))
       \<and> o_bounds (main_options e) = getWindowBoundsOptions (env_consts e) (env_store e)"
  unfolding r_def getWindowBoundsOptions_def Let_def main_options_def destructure_bounds_def
  by (cases "disableMinSize st" rule: truthy.cases; cases "windowBounds st")
     (auto split: option.split)

theorem getWindowBoundsOptions_spec_witness:
  "windowBounds (ex_settings\<lparr>windowBounds := Some ex_full_bounds\<rparr>) = Some ex_full_bounds
   \<and> getWindowBoundsOptions ex_consts (ex_settings\<lparr>windowBounds := Some ex_full_bounds\<rparr>)
       = \<lparr>opt_width = 800, opt_height = 600, opt_x = Some 10, opt_y = Some 20,
          opt_minWidth = Some 940, opt_minHeight = Some 500\<rparr>
   \<and> getWindowBoundsOptions ex_consts (ex_settings\<lparr>windowBounds := Some ex_partial_bounds\<rparr>)
       = \<lparr>opt_width = 800, opt_height = 720, opt_x = None, opt_y = None,
          opt_minWidth = Some 940, opt_minHeight = Some 500\<rparr>
   \<and> getWindowBoundsOptions ex_consts (ex_settings\<lparr>disableMinSize := Some True\<rparr>)
       = \<lparr>opt_width = 1280, opt_height = 720, opt_x = None, opt_y = None,
          opt_minWidth = None, opt_minHeight = None\<rparr>"
proof -
  have eq: "r = \<lparr>opt_width = opt_width r, opt_height = opt_height r, opt_x = opt_x r,
                  opt_y = opt_y r, opt_minWidth = opt_minWidth r,
                  opt_minHeight = opt_minHeight r\<rparr>" for r :: bounds_options
    by simp
  show ?thesis
    using getWindowBoundsOptions_spec
            [of ex_consts "ex_settings\<lparr>windowBounds := Some ex_full_bounds\<rparr>"]
          getWindowBoundsOptions_spec
            [of ex_consts "ex_settings\<lparr>windowBounds := Some ex_partial_bounds\<rparr>"]
          getWindowBoundsOptions_spec
            [of ex_consts "ex_settings\<lparr>disableMinSize := Some True\<rparr>"]
    by (subst (1 2 3) eq)
       (simp add: ex_full_bounds_def ex_partial_bounds_def ex_settings_def ex_consts_def)
qed

subsection \<open>The minimum size\<close>

text \<open>
  C6. At any point of a run, a change of \<^verbatim>\<open>disableMinSize\<close> to \<^verbatim>\<open>false\<close>
  sets the minimum size to the constants \<^verbatim>\<open>MIN_WIDTH\<close> and \<^verbatim>\<open>MIN_HEIGHT\<close>
  and replaces the width and the height of the window by the maximum of the current
  value and the matching constant, so neither dimension decreases; the position is
  kept. A change to \<^verbatim>\<open>true\<close> sets the minimum size to 1 by 1 and leaves the
  bounds alone.
\<close>

theorem disableMinSize_change:
  assumes "s = run (env_consts e) evs (createMainWindow e q)"
    and "disableMinSize (store s) \<noteq> Some v"
    and "s' = step (env_consts e) (ChangeDisableMinSize v) s"
  shows "disableMinSize (store s') = Some v
       \<and> (if v
           then w_minWidth (mainWin s') = 1 \<and> w_minHeight (mainWin s') = 1
              \<and> w_bounds (mainWin s') = w_bounds (mainWin s)
           else w_minWidth (mainWin s') = MIN_WIDTH (env_consts e)
              \<and> w_minHeight (mainWin s') = MIN_HEIGHT (env_consts e)
              \<and> rect_width (w_bounds (mainWin s'))
                  = max (rect_width (w_bounds (mainWin s))) (MIN_WIDTH (env_consts e))
              \<and> rect_height (w_bounds (mainWin s'))
                  = max (rect_height (w_bounds (mainWin s))) (MIN_HEIGHT (env_consts e))
              \<and> rect_width (w_bounds (mainWin s)) \<le> rect_width (w_bounds (mainWin s'))
              \<and> rect_height (w_bounds (mainWin s)) \<le> rect_height (w_bounds (mainWin s'))
              \<and> rect_x (w_bounds (mainWin s')) = rect_x (w_bounds (mainWin s))
              \<and> rect_y (w_bounds (mainWin s')) = rect_y (w_bounds (mainWin s)))"
proof -
  have w: "wired s" using assms(1) by (simp add: wired_reachable)
  then have w': "wired (s\<lparr>store := (store s)\<lparr>disableMinSize := Some v\<rparr>\<rparr>)"
    by (rule wired_store)
  show ?thesis
    using assms(2,3) w'
    by (simp add: step_def change_disableMinSize_def notify_disableMinSize setMinimumSize_def
        setBounds_size_def Let_def)
qed

theorem disableMinSize_change_witness:
  "disableMinSize (store (run (env_consts ex_env) [ResizeWindow 300 900, ChangeDisableMinSize True]
       (createMainWindow ex_env False))) \<noteq> Some False
   \<and> rect_width (w_bounds (mainWin (run (env_consts ex_env) [ResizeWindow 300 900, ChangeDisableMinSize True]
       (createMainWindow ex_env False)))) = 300
   \<and> rect_height (w_bounds (mainWin (run (env_consts ex_env) [ResizeWindow 300 900, ChangeDisableMinSize True]
       (createMainWindow ex_env False)))) = 900
   \<and> rect_width (w_bounds (mainWin (step (env_consts ex_env) (ChangeDisableMinSize False)
       (run (env_consts ex_env) [ResizeWindow 300 900, ChangeDisableMinSize True]
         (createMainWindow ex_env False))))) = 940
   \<and> rect_height (w_bounds (mainWin (step (env_consts ex_env) (ChangeDisableMinSize False)
       (run (env_consts ex_env) [ResizeWindow 300 900, ChangeDisableMinSize True]
         (createMainWindow ex_env False))))) = 900"
proof -
  let ?s = "run (env_consts ex_env) [ResizeWindow 300 900, ChangeDisableMinSize True]
              (createMainWindow ex_env False)"
  have a: "disableMinSize (store ?s) \<noteq> Some False" by code_simp
  have b: "rect_width (w_bounds (mainWin ?s)) = 300" by code_simp
  have c: "rect_height (w_bounds (mainWin ?s)) = 900" by code_simp
  have d: "MIN_WIDTH (env_consts ex_env) = 940" "MIN_HEIGHT (env_consts ex_env) = 500"
    by (simp_all add: ex_env_def ex_consts_def)
  show ?thesis
    using disableMinSize_change [OF refl a refl] a b c d by simp
qed

subsection \<open>The Open item after show and hide\<close>

text \<open>
  C7. At any point of a run, right after the window has been shown the
  \<^verbatim>\<open>Open\<close> item of every tray menu is disabled and the window is visible; right
  after it has been hidden the item is enabled and the window is not visible. In both
  cases the flag is the negation of the visibility. The events that show and hide an
  open window are exactly \<^verbatim>\<open>win.show()\<close> and \<^verbatim>\<open>win.hide()\<close>.
\<close>

theorem open_enabled_after_show_hide:
  assumes "s = run c evs (createMainWindow e q)"
  shows "w_visible (mainWin (win_show s)) \<and> open_matches_visibility (win_show s)
       \<and> \<not> w_visible (mainWin (win_hide s)) \<and> open_matches_visibility (win_hide s)
       \<and> (\<not> w_closed (mainWin s) \<longrightarrow>
            step c ShowWindow s = win_show s \<and> step c HideWindow s = win_hide s)"
proof -
  have w: "wired s" using assms by (simp add: wired_reachable)
  show ?thesis
    using w all_open_items [OF w, of True] all_open_items [OF w, of False]
    by (simp add: win_show_eq win_hide_eq open_matches_visibility_def step_def)
qed

theorem open_enabled_after_show_hide_witness:
  "\<not> w_closed (mainWin (run ex_consts [ChangeTray True] (createMainWindow ex_env False)))
   \<and> map (\<lambda>t. enabled (tray_menu t ! 0))
        (trays (step ex_consts HideWindow (run ex_consts [ChangeTray True] (createMainWindow ex_env False))))
       = [True, True]
   \<and> map (\<lambda>t. enabled (tray_menu t ! 0))
        (trays (step ex_consts ShowWindow (run ex_consts [ChangeTray True] (createMainWindow ex_env False))))
       = [False, False]
   \<and> open_matches_visibility
        (step ex_consts HideWindow (run ex_consts [ChangeTray True] (createMainWindow ex_env False)))
   \<and> open_matches_visibility
        (step ex_consts ShowWindow (run ex_consts [ChangeTray True] (createMainWindow ex_env False)))"
proof -
  let ?s = "run ex_consts [ChangeTray True] (createMainWindow ex_env False)"
  have a: "\<not> w_closed (mainWin ?s)" by code_simp
  have b: "map (\<lambda>t. enabled (tray_menu t ! 0)) (trays (step ex_consts HideWindow ?s)) = [True, True]"
    by code_simp
  have c: "map (\<lambda>t. enabled (tray_menu t ! 0)) (trays (step ex_consts ShowWindow ?s)) = [False, False]"
    by code_simp
  show ?thesis
    using open_enabled_after_show_hide
            [where c = ex_consts and evs = "[ChangeTray True]" and e = ex_env and q = False, OF refl]
          a b c
    by simp
qed

subsection \<open>Bounds persistence\<close>



subsection \<open>The quitting flag is one-way\<close>

text \<open>
  C9. The quitting flag starts false, and \<^verbatim>\<open>createMainWindow\<close> leaves it so.
  In a run, once it is true it stays true; and one event sets it exactly when that event
  is \<^verbatim>\<open>before-quit\<close> or a click on the last item (Quit) of the context menu of a
  tray that is not destroyed. No other event changes it.
\<close>

theorem quitting_flag_one_way:
  assumes "s = run c evs (createMainWindow e isQuitting_initial)"
  shows "\<not> isQuitting (createMainWindow e isQuitting_initial)
       \<and> (isQuitting s \<longrightarrow> isQuitting (run c evs' s))
       \<and> isQuitting (step c ev s) =
           (isQuitting s \<or> ev = BeforeQuit
            \<or> (\<exists>i. ev = ClickTrayMenu i 5 \<and> i < length (trays s) \<and> \<not> tray_destroyed (trays s ! i)))"
proof -
  have w: "wired s" using assms by (simp add: wired_reachable)
  show ?thesis
    using w by (simp add: isQuitting_createMainWindow isQuitting_initial_def isQuitting_run isQuitting_step)
qed

theorem quitting_flag_one_way_witness:
  "isQuitting (run ex_consts [BeforeQuit] (createMainWindow ex_env isQuitting_initial))
   \<and> isQuitting (run ex_consts [HideWindow, ChangeTray False]
        (run ex_consts [BeforeQuit] (createMainWindow ex_env isQuitting_initial)))
   \<and> \<not> isQuitting (step ex_consts CloseRequest (createMainWindow ex_env isQuitting_initial))"
proof -
  have a: "isQuitting (run ex_consts [BeforeQuit] (createMainWindow ex_env isQuitting_initial))"
    by code_simp
  have b: "\<not> isQuitting (run ex_consts [] (createMainWindow ex_env isQuitting_initial))"
    by code_simp
  show ?thesis
    using quitting_flag_one_way
            [where c = ex_consts and evs = "[BeforeQuit]" and e = ex_env
               and evs' = "[HideWindow, ChangeTray False]" and ev = BeforeQuit, OF refl]
          quitting_flag_one_way
            [where c = ex_consts and evs = "[]" and e = ex_env
               and evs' = "[]" and ev = CloseRequest, OF refl]
          a b
    by simp
qed

subsection \<open>The Open item at startup\<close>

text \<open>
  C10. Right after \<^verbatim>\<open>createMainWindow\<close> the window is not visible. If the
  \<^verbatim>\<open>tray\<close> setting is on there is one tray; the first item of its menu is
  \<^verbatim>\<open>Open\<close> and it is disabled, so the flag does not yet match the hidden
  window. (With the setting off there is no tray to compare.)
\<close>

theorem initial_open_item:
  "\<not> w_visible (mainWin (createMainWindow e q))
   \<and> trays (createMainWindow e q) =
       (if nullish (tray (env_store e)) True
        then [\<lparr>tray_icon = ICON_PATH (env_consts e), tray_toolTip = Some ''Vencord Desktop'',
                tray_menu = trayMenu, tray_click = [ActShow], tray_destroyed = False\<rparr>]
        else [])
   \<and> label (trayMenu ! 0) = Some ''Open''
   \<and> \<not> enabled (trayMenu ! 0)
   \<and> open_matches_visibility (createMainWindow e q) = (\<not> nullish (tray (env_store e)) True)"
  by (simp add: createMainWindow_visible createMainWindow_trays open_matches_visibility_def)
     (simp add: trayMenu_def item_def)

theorem initial_open_item_witness:
  "nullish (tray (env_store ex_env)) True
   \<and> \<not> w_visible (mainWin (createMainWindow ex_env False))
   \<and> map tray_menu (trays (createMainWindow ex_env False)) = [trayMenu]
   \<and> \<not> enabled (trayMenu ! 0)
   \<and> \<not> open_matches_visibility (createMainWindow ex_env False)"
  using initial_open_item [of ex_env False]
  by (simp add: ex_env_def ex_settings_def)

end
